theory Spec2Isabelle
  imports Complex_Main "HOL-Library.Monad_Syntax"
begin

section \<open>Tensors\<close>

text \<open>
  The update rules of \<^verbatim>\<open>dqn_impl.py\<close> and \<^verbatim>\<open>sac_impl.py\<close> work on tensors of rank 1, 2
  and 3. A tensor is a nested list in row-major order; floating-point numbers are read as
  reals, so rounding, infinities and NaN are outside this model. A tensor with a dimension
  of size 0 keeps no record of the sizes to the right of that dimension.

  A tensor operation that raises (a shape mismatch, an index out of range) or whose result
  is not a number (the mean of no elements) returns \<open>None\<close>, and so does the update rule
  that called it.
\<close>

type_synonym vec = "real list"
type_synonym mat = "real list list"
type_synonym cube = "real list list list"

datatype tensor = T1 vec | T2 mat | T3 cube

fun tdim :: "tensor \<Rightarrow> nat" where
  "tdim (T1 v) = 1"
| "tdim (T2 m) = 2"
| "tdim (T3 c) = 3"

fun flatten :: "tensor \<Rightarrow> real list" where
  "flatten (T1 v) = v"
| "flatten (T2 m) = concat m"
| "flatten (T3 c) = concat (concat c)"

text \<open>
  Broadcasting of one dimension: the sizes are equal, or one of them is 1 and its only
  entry is repeated; anything else is an error. The function is applied once per level.
\<close>

definition bcast :: "('a \<Rightarrow> 'b \<Rightarrow> 'c option) \<Rightarrow> 'a list \<Rightarrow> 'b list \<Rightarrow> 'c list option" where
  "bcast f xs ys =
     (if length xs = length ys then those (map2 f xs ys)
      else if length xs = 1 then those (map (f (hd xs)) ys)
      else if length ys = 1 then those (map (\<lambda>x. f x (hd ys)) xs)
      else None)"

definition bop0 :: "(real \<Rightarrow> real \<Rightarrow> real) \<Rightarrow> real \<Rightarrow> real \<Rightarrow> real option" where
  "bop0 f x y = Some (f x y)"

definition bop1 :: "(real \<Rightarrow> real \<Rightarrow> real) \<Rightarrow> vec \<Rightarrow> vec \<Rightarrow> vec option" where
  "bop1 f = bcast (bop0 f)"

definition bop2 :: "(real \<Rightarrow> real \<Rightarrow> real) \<Rightarrow> mat \<Rightarrow> mat \<Rightarrow> mat option" where
  "bop2 f = bcast (bop1 f)"

definition bop3 :: "(real \<Rightarrow> real \<Rightarrow> real) \<Rightarrow> cube \<Rightarrow> cube \<Rightarrow> cube option" where
  "bop3 f = bcast (bop2 f)"

text \<open>A binary operation on tensors of any two ranks: the lower rank is aligned to the
  right by dimensions of size 1 in front, and the result has the higher rank.\<close>

fun as_cube :: "tensor \<Rightarrow> cube" where
  "as_cube (T1 v) = [[v]]"
| "as_cube (T2 m) = [m]"
| "as_cube (T3 c) = c"

definition of_cube :: "nat \<Rightarrow> cube \<Rightarrow> tensor option" where
  "of_cube n c =
     (if n = 3 then Some (T3 c)
      else if n = 2 then (case c of [m] \<Rightarrow> Some (T2 m) | _ \<Rightarrow> None)
      else (case c of [[v]] \<Rightarrow> Some (T1 v) | _ \<Rightarrow> None))"

definition tbop :: "(real \<Rightarrow> real \<Rightarrow> real) \<Rightarrow> tensor \<Rightarrow> tensor \<Rightarrow> tensor option" where
  "tbop f a b = do {
     c \<leftarrow> bop3 f (as_cube a) (as_cube b);
     of_cube (max (tdim a) (tdim b)) c
   }"

text \<open>\<^verbatim>\<open>unsqueeze(-1)\<close> of a rank-2 tensor, \<^verbatim>\<open>exp()\<close>, and \<^verbatim>\<open>F.log_softmax(x, dim=1)\<close>.\<close>

definition unsqueeze_last :: "mat \<Rightarrow> cube" where
  "unsqueeze_last m = map (map (\<lambda>x. [x])) m"

definition texp :: "mat \<Rightarrow> mat" where
  "texp m = map (map exp) m"

definition log_softmax :: "mat \<Rightarrow> mat" where
  "log_softmax m = map (\<lambda>r. map (\<lambda>x. x - ln (sum_list (map exp r))) r) m"

text \<open>\<^verbatim>\<open>sum(dim=1, keepdim=k)\<close>. For rank 2 each row is summed; for rank 3 the rows of each
  (dim 1, dim 2) slice are added entry by entry. Rank 1 has no dimension 1.\<close>

fun sum_rows :: "real list list \<Rightarrow> real list" where
  "sum_rows [] = []"
| "sum_rows [r] = r"
| "sum_rows (r # rs) = map2 (+) r (sum_rows rs)"

fun tsum_dim1 :: "tensor \<Rightarrow> bool \<Rightarrow> tensor option" where
  "tsum_dim1 (T1 v) keepdim = None"
| "tsum_dim1 (T2 m) keepdim =
     (if keepdim then Some (T2 (map (\<lambda>r. [sum_list r]) m)) else Some (T1 (map sum_list m)))"
| "tsum_dim1 (T3 c) keepdim =
     (if keepdim then Some (T3 (map (\<lambda>m. [sum_rows m]) c)) else Some (T2 (map sum_rows c)))"

text \<open>\<^verbatim>\<open>mean()\<close> over all entries; the mean of no entries is NaN.\<close>

definition tmean :: "tensor \<Rightarrow> real option" where
  "tmean t =
     (if flatten t = [] then None
      else Some (sum_list (flatten t) / real (length (flatten t))))"

text \<open>\<^verbatim>\<open>long()\<close> rounds towards zero.\<close>

definition long :: "mat \<Rightarrow> int list list" where
  "long m = map (map (\<lambda>x. if 0 \<le> x then \<lfloor>x\<rfloor> else \<lceil>x\<rceil>)) m"

text \<open>\<^verbatim>\<open>argmax(dim=1)\<close> of a rank-2 tensor: per row, the index of the first maximal entry;
  a row of size 0 is an error.\<close>

fun argmax_acc :: "nat \<Rightarrow> real \<Rightarrow> nat \<Rightarrow> real list \<Rightarrow> nat" where
  "argmax_acc best bv i [] = best"
| "argmax_acc best bv i (x # xs) =
     (if bv < x then argmax_acc i x (Suc i) xs else argmax_acc best bv (Suc i) xs)"

definition argmax_row :: "real list \<Rightarrow> nat option" where
  "argmax_row r = (case r of [] \<Rightarrow> None | x # xs \<Rightarrow> Some (argmax_acc 0 x 1 xs))"

definition argmax_dim1 :: "mat \<Rightarrow> nat list option" where
  "argmax_dim1 m = those (map argmax_row m)"

text \<open>The shape of a rank-2 and of a rank-3 tensor, as the theorems below need it.\<close>

definition has_shape2 :: "'a list list \<Rightarrow> nat \<Rightarrow> nat \<Rightarrow> bool" where
  "has_shape2 m B A = (length m = B \<and> list_all (\<lambda>r. length r = A) m)"

definition has_shape3 :: "'a list list list \<Rightarrow> nat \<Rightarrow> nat \<Rightarrow> nat \<Rightarrow> bool" where
  "has_shape3 c B A N = (length c = B \<and> list_all (\<lambda>m. has_shape2 m A N) c)"

section \<open>Parameter store, gradient tracking, optimizers\<close>

text \<open>
  Modules, forwarders and optimizers share parameter tensors by reference, so the
  parameters live in a store indexed by address. The store also holds the accumulated
  gradient of every parameter group (\<open>None\<close> when it has none), the training-mode flag of
  every module, the state of every optimizer, the global flag that \<^verbatim>\<open>torch.no_grad()\<close>
  switches off, and the state of the random generator.
\<close>

type_synonym addr = nat

record store =
  params :: "addr \<Rightarrow> real list"
  grads :: "addr \<Rightarrow> real list option"
  training :: "addr \<Rightarrow> bool"
  opt_state :: "addr \<Rightarrow> real list"
  grad_enabled :: bool
  rng :: nat

text \<open>A value of the tensor engine together with the parameter groups its autograd graph
  reaches: the leaves that \<^verbatim>\<open>backward()\<close> writes a gradient to. A value computed while
  gradient tracking is off has no leaves.\<close>

record 'a tracked =
  val :: 'a
  leaves :: "addr set"

definition untracked :: "'a \<Rightarrow> 'a tracked" where
  "untracked v = \<lparr>val = v, leaves = {}\<rparr>"

text \<open>\<^verbatim>\<open>with torch.no_grad(): body\<close>: tracking is off inside and restored on exit.\<close>

definition no_grad :: "(store \<Rightarrow> 'a \<times> store) \<Rightarrow> store \<Rightarrow> 'a \<times> store" where
  "no_grad body s =
     (let (r, s') = body (s\<lparr>grad_enabled := False\<rparr>)
      in (r, s'\<lparr>grad_enabled := grad_enabled s\<rparr>))"

text \<open>An optimizer object: where its state lives, the parameter groups it was built over,
  and its update rule (state, parameter, gradient to new parameter).\<close>

record optimizer =
  opt_addr :: addr
  owned :: "addr list"
  rule :: "real list \<Rightarrow> real list \<Rightarrow> real list \<Rightarrow> real list"
  advance :: "real list \<Rightarrow> real list"

definition zero_grad :: "optimizer \<Rightarrow> store \<Rightarrow> store" where
  "zero_grad opt s = s\<lparr>grads := (\<lambda>a. if a \<in> set (owned opt) then None else grads s a)\<rparr>"

definition step :: "optimizer \<Rightarrow> store \<Rightarrow> store" where
  "step opt s =
     s\<lparr>params := (\<lambda>a. if a \<in> set (owned opt)
                      then (case grads s a of
                              None \<Rightarrow> params s a
                            | Some g \<Rightarrow> rule opt (opt_state s (opt_addr opt)) (params s a) g)
                      else params s a),
       opt_state := (opt_state s)(opt_addr opt := advance opt (opt_state s (opt_addr opt)))\<rparr>"

text \<open>\<^verbatim>\<open>loss.backward()\<close>: every leaf of the loss receives the gradient the engine computes
  for it (\<open>G\<close>), added to what the leaf has accumulated. A loss that no parameter is
  tracked through cannot be differentiated, and the call raises.\<close>

definition accumulate :: "real list option \<Rightarrow> real list \<Rightarrow> real list" where
  "accumulate old g = (case old of None \<Rightarrow> g | Some h \<Rightarrow> map2 (+) h g)"

definition backward :: "(addr \<Rightarrow> real list) \<Rightarrow> 'a tracked \<Rightarrow> store \<Rightarrow> store option" where
  "backward G loss s =
     (if leaves loss = {} then None
      else Some (s\<lparr>grads := (\<lambda>a. if a \<in> leaves loss then Some (accumulate (grads s a) (G a))
                                else grads s a)\<rparr>))"

text \<open>Modelled from the spec: \<^verbatim>\<open>hard_sync\<close> is defined in \<^verbatim>\<open>torch_utility\<close>, which is not
  among the sources. The spec (4.4): "copy every parameter tensor from source network to
  destination network by matching structure; no partial/soft interpolation".\<close>

definition hard_sync :: "addr \<Rightarrow> addr \<Rightarrow> store \<Rightarrow> store" where
  "hard_sync targ_model model s = s\<lparr>params := (params s)(targ_model := params s model)\<rparr>"


text \<open>Modelled from the spec: the decorator \<^verbatim>\<open>train_api\<close> is defined in \<^verbatim>\<open>torch_utility\<close>,
  which is not among the sources. The spec (2) gives an update entry point no effect but
  its body's: "zero gradients, compute loss via target computation + forwarder,
  backpropagate, step optimizer, return scalar metrics".\<close>

definition train_api :: "(store \<Rightarrow> 'a \<times> store) \<Rightarrow> store \<Rightarrow> 'a \<times> store" where
  "train_api f s = f s"

section \<open>Mini-batches and collaborators\<close>

text \<open>\<^verbatim>\<open>TorchMiniBatch\<close>: observations are (batch, features); actions, rewards, terminals and
  intervals are (batch, 1). Intervals are step counts.\<close>

record batch =
  observations :: mat
  actions :: mat
  rewards :: mat
  next_observations :: mat
  terminals :: mat
  intervals :: "nat list list"

text \<open>
  An ensemble Q-function forwarder: the module list it reads (\<open>ensemble\<close>) and its forward
  functions, each a function of the ensemble's current parameters. Optional arguments
  left out by the caller are \<open>None\<close>; a reduction is named by its string. The action is a list of indices for the discrete
  forwarder and a (batch, action) tensor for the continuous one. \<open>fwd_td_error\<close> is the
  error between the ensemble's estimate at the taken actions and a given
  temporal-difference target.
\<close>

record 'a forwarder =
  ensemble :: addr
  fwd_compute_expected_q :: "real list \<Rightarrow> mat \<Rightarrow> 'a option \<Rightarrow> string option \<Rightarrow> mat"
  fwd_compute_target :: "real list \<Rightarrow> mat \<Rightarrow> 'a option \<Rightarrow> string option \<Rightarrow> tensor"
  fwd_td_error :: "real list \<Rightarrow> mat \<Rightarrow> int list list \<Rightarrow> tensor \<Rightarrow> real"

definition tracked_by :: "store \<Rightarrow> addr \<Rightarrow> addr set" where
  "tracked_by s a = (if grad_enabled s then {a} else {})"

definition compute_expected_q ::
  "'a forwarder \<Rightarrow> store \<Rightarrow> mat \<Rightarrow> 'a option \<Rightarrow> string option \<Rightarrow> mat tracked" where
  "compute_expected_q F s x a r =
     \<lparr>val = fwd_compute_expected_q F (params s (ensemble F)) x a r,
      leaves = tracked_by s (ensemble F)\<rparr>"

definition compute_target ::
  "'a forwarder \<Rightarrow> store \<Rightarrow> mat \<Rightarrow> 'a option \<Rightarrow> string option \<Rightarrow> tensor tracked" where
  "compute_target F s x a r =
     \<lparr>val = fwd_compute_target F (params s (ensemble F)) x a r,
      leaves = tracked_by s (ensemble F)\<rparr>"

text \<open>Modelled from the spec: the body of the forwarder's \<^verbatim>\<open>compute_error\<close> is defined in
  \<^verbatim>\<open>models.torch\<close>, which is not among the sources. The spec (4.1): "temporal-difference
  error between the live ensemble's Q-estimate at the taken action and
  reward + (gamma^interval) * target * (1 - terminal)"; the discount arrives already
  raised to the interval, as the argument \<open>gam\<close>.\<close>

definition compute_error ::
  "'a forwarder \<Rightarrow> store \<Rightarrow> mat \<Rightarrow> int list list \<Rightarrow> mat \<Rightarrow> tensor tracked \<Rightarrow> mat \<Rightarrow> mat
   \<Rightarrow> real tracked option" where
  "compute_error F s obs acts rews target terms gam = do {
     gt \<leftarrow> tbop (*) (T2 gam) (val target);
     gtd \<leftarrow> tbop (*) gt (T2 (map (map (\<lambda>d. 1 - d)) terms));
     y \<leftarrow> tbop (+) (T2 rews) gtd;
     Some \<lparr>val = fwd_td_error F (params s (ensemble F)) obs acts y,
           leaves = tracked_by s (ensemble F) \<union> leaves target\<rparr>
   }"

text \<open>A policy network: where its parameters live and its forward function. A categorical
  distribution shows its normalised log-probabilities (\<open>logits\<close>) and probabilities; a
  squashed Gaussian distribution draws from the random generator.\<close>

record 'd policy_module =
  p_addr :: addr
  p_forward :: "real list \<Rightarrow> mat \<Rightarrow> 'd"

record categorical =
  logits :: mat
  probs :: mat

record squashed_gaussian =
  sample_with_log_prob :: "nat \<Rightarrow> (mat \<times> mat) \<times> nat"
  sample :: "nat \<Rightarrow> mat \<times> nat"

definition call_policy :: "'d policy_module \<Rightarrow> store \<Rightarrow> mat \<Rightarrow> 'd tracked" where
  "call_policy P s x =
     \<lparr>val = p_forward P (params s (p_addr P)) x, leaves = tracked_by s (p_addr P)\<rparr>"

text \<open>\<^verbatim>\<open>Parameter.__call__\<close>: the parameter tensor itself, one row.\<close>

definition call_parameter :: "addr \<Rightarrow> store \<Rightarrow> mat tracked" where
  "call_parameter a s = \<lparr>val = [params s a], leaves = tracked_by s a\<rparr>"

section \<open>Module bundles and implementations\<close>

record q_modules =
  q_funcs :: addr
  targ_q_funcs :: addr

record dqn_modules = q_modules +
  optim :: optimizer

record 'd sac_modules = q_modules +
  policy :: "'d policy_module"
  log_temp :: addr
  actor_optim :: optimizer
  critic_optim :: optimizer
  temp_optim :: optimizer

text \<open>The fields every implementation keeps. \<open>autograd\<close> is the engine's differentiation:
  the gradient of the named loss with respect to a parameter group, for the forward pass
  that starts in the given store on the given batch.\<close>

record ('m, 'a) impl =
  modules :: 'm
  gamma :: real
  q_func_forwarder :: "'a forwarder"
  targ_q_func_forwarder :: "'a forwarder"
  action_size :: nat
  autograd :: "string \<Rightarrow> store \<Rightarrow> batch \<Rightarrow> addr \<Rightarrow> real list"

type_synonym dqn_impl = "(dqn_modules, nat list) impl"
type_synonym 'd sac_impl = "('d sac_modules, mat) impl"
type_synonym discrete_sac_impl = "(categorical sac_modules, nat list) impl"

type_synonym metrics = "(string \<times> real) list"


section \<open>DQN and Double DQN\<close>

text \<open>\<^verbatim>\<open>DQNImpl.__init__\<close>: keeps its arguments and synchronises the target ensemble.\<close>

definition dqn_init ::
  "nat \<Rightarrow> dqn_modules \<Rightarrow> nat list forwarder \<Rightarrow> nat list forwarder \<Rightarrow> real
   \<Rightarrow> (string \<Rightarrow> store \<Rightarrow> batch \<Rightarrow> addr \<Rightarrow> real list) \<Rightarrow> store \<Rightarrow> dqn_impl \<times> store" where
  "dqn_init asize ms qf tqf g ag s =
     (\<lparr>modules = ms, gamma = g, q_func_forwarder = qf, targ_q_func_forwarder = tqf,
       action_size = asize, autograd = ag\<rparr>,
      hard_sync (targ_q_funcs ms) (q_funcs ms) s)"

definition dqn_compute_loss ::
  "dqn_impl \<Rightarrow> batch \<Rightarrow> tensor tracked \<Rightarrow> store \<Rightarrow> real tracked option" where
  "dqn_compute_loss I b q_tpn s =
     compute_error (q_func_forwarder I) s (observations b) (long (actions b)) (rewards b)
       q_tpn (terminals b) (map (map (\<lambda>n. gamma I ^ n)) (intervals b))"

definition dqn_compute_target :: "dqn_impl \<Rightarrow> batch \<Rightarrow> store \<Rightarrow> tensor tracked option \<times> store" where
  "dqn_compute_target I b =
     no_grad (\<lambda>s.
       let next_actions =
             compute_expected_q (targ_q_func_forwarder I) s (next_observations b) None None
       in (case argmax_dim1 (val next_actions) of
             None \<Rightarrow> (None, s)
           | Some max_action \<Rightarrow>
               (Some (compute_target (targ_q_func_forwarder I) s (next_observations b)
                        (Some max_action) (Some ''min'')), s)))"

definition dqn_inner_predict_best_action :: "dqn_impl \<Rightarrow> mat \<Rightarrow> store \<Rightarrow> nat list option" where
  "dqn_inner_predict_best_action I x s =
     argmax_dim1 (val (compute_expected_q (q_func_forwarder I) s x None None))"

definition dqn_inner_sample_action :: "dqn_impl \<Rightarrow> mat \<Rightarrow> store \<Rightarrow> nat list option" where
  "dqn_inner_sample_action I x s = dqn_inner_predict_best_action I x s"

definition dqn_update_target :: "dqn_impl \<Rightarrow> store \<Rightarrow> store" where
  "dqn_update_target I s = hard_sync (targ_q_funcs (modules I)) (q_funcs (modules I)) s"

definition double_dqn_compute_target ::
  "dqn_impl \<Rightarrow> batch \<Rightarrow> store \<Rightarrow> tensor tracked option \<times> store" where
  "double_dqn_compute_target I b =
     no_grad (\<lambda>s.
       (case dqn_inner_predict_best_action I (next_observations b) s of
          None \<Rightarrow> (None, s)
        | Some action \<Rightarrow>
            (Some (compute_target (targ_q_func_forwarder I) s (next_observations b)
                     (Some action) (Some ''min'')), s)))"

text \<open>\<^verbatim>\<open>update\<close> calls \<^verbatim>\<open>self.compute_target\<close>, which is the method of the object's class:
  the first argument is that method.\<close>

definition update_with ::
  "(dqn_impl \<Rightarrow> batch \<Rightarrow> store \<Rightarrow> tensor tracked option \<times> store)
   \<Rightarrow> dqn_impl \<Rightarrow> batch \<Rightarrow> store \<Rightarrow> metrics option \<times> store" where
  "update_with self_compute_target I b =
     train_api (\<lambda>s.
       let s1 = zero_grad (optim (modules I)) s;
           (q_tpn, s2) = self_compute_target I b s1
       in (case q_tpn of
             None \<Rightarrow> (None, s2)
           | Some q \<Rightarrow>
               (case dqn_compute_loss I b q s2 of
                  None \<Rightarrow> (None, s2)
                | Some loss \<Rightarrow>
                    (case backward (autograd I ''loss'' s1 b) loss s2 of
                       None \<Rightarrow> (None, s2)
                     | Some s3 \<Rightarrow> (Some [(''loss'', val loss)], step (optim (modules I)) s3)))))"

definition dqn_update :: "dqn_impl \<Rightarrow> batch \<Rightarrow> store \<Rightarrow> metrics option \<times> store" where
  "dqn_update = update_with dqn_compute_target"

definition double_dqn_update :: "dqn_impl \<Rightarrow> batch \<Rightarrow> store \<Rightarrow> metrics option \<times> store" where
  "double_dqn_update = update_with double_dqn_compute_target"

section \<open>SAC\<close>

text \<open>\<^verbatim>\<open>build_squashed_gaussian_distribution\<close> comes from \<^verbatim>\<open>models.torch\<close>; it is the
  argument \<open>build\<close> of the functions below.\<close>

definition sac_compute_actor_loss ::
  "('d \<Rightarrow> squashed_gaussian) \<Rightarrow> 'd sac_impl \<Rightarrow> batch \<Rightarrow> store \<Rightarrow> real tracked option \<times> store" where
  "sac_compute_actor_loss build I b s =
     (let pol = call_policy (policy (modules I)) s (observations b);
          dist = build (val pol);
          ((action, log_prob), r') = sample_with_log_prob dist (rng s);
          s' = s\<lparr>rng := r'\<rparr>;
          temp = call_parameter (log_temp (modules I)) s';
          q_t = compute_expected_q (q_func_forwarder I) s' (observations b) (Some action)
                  (Some ''min'')
      in (do {
            entropy \<leftarrow> bop2 (*) (texp (val temp)) log_prob;
            d \<leftarrow> bop2 (-) entropy (val q_t);
            m \<leftarrow> tmean (T2 d);
            Some \<lparr>val = m, leaves = leaves temp \<union> leaves pol \<union> leaves q_t\<rparr>
          }, s'))"

definition sac_update_temp ::
  "('d \<Rightarrow> squashed_gaussian) \<Rightarrow> 'd sac_impl \<Rightarrow> batch \<Rightarrow> store \<Rightarrow> metrics option \<times> store" where
  "sac_update_temp build I b =
     train_api (\<lambda>s.
       let s1 = zero_grad (temp_optim (modules I)) s;
           (targ_temp, s2) =
             no_grad (\<lambda>s.
               let pol = call_policy (policy (modules I)) s (observations b);
                   dist = build (val pol);
                   ((action, log_prob), r') = sample_with_log_prob dist (rng s)
               in (\<lparr>val = map (map (\<lambda>x. x - real (action_size I))) log_prob,
                    leaves = leaves pol\<rparr>, s\<lparr>rng := r'\<rparr>)) s1;
           temp = call_parameter (log_temp (modules I)) s2
       in (case (do {
                   p \<leftarrow> bop2 (*) (texp (val temp)) (val targ_temp);
                   m \<leftarrow> tmean (T2 p);
                   Some \<lparr>val = - m, leaves = leaves temp \<union> leaves targ_temp\<rparr>
                 }) of
             None \<Rightarrow> (None, s2)
           | Some loss \<Rightarrow>
               (case backward (autograd I ''temp_loss'' s1 b) loss s2 of
                  None \<Rightarrow> (None, s2)
                | Some s3 \<Rightarrow>
                    (let s4 = step (temp_optim (modules I)) s3
                     in (case texp (val (call_parameter (log_temp (modules I)) s4)) of
                           (cur_temp # r0) # rs \<Rightarrow>
                             (Some [(''temp_loss'', val loss), (''temp'', cur_temp)], s4)
                         | _ \<Rightarrow> (None, s4))))))"

definition sac_compute_target ::
  "('d \<Rightarrow> squashed_gaussian) \<Rightarrow> 'd sac_impl \<Rightarrow> batch \<Rightarrow> store \<Rightarrow> tensor tracked option \<times> store" where
  "sac_compute_target build I b =
     no_grad (\<lambda>s.
       let pol = call_policy (policy (modules I)) s (next_observations b);
           dist = build (val pol);
           ((action, log_prob), r') = sample_with_log_prob dist (rng s);
           s' = s\<lparr>rng := r'\<rparr>;
           temp = call_parameter (log_temp (modules I)) s';
           target = compute_target (targ_q_func_forwarder I) s' (next_observations b)
                      (Some action) (Some ''min'')
       in (do {
             entropy \<leftarrow> bop2 (*) (texp (val temp)) log_prob;
             r \<leftarrow> tbop (-) (val target) (T2 entropy);
             Some \<lparr>val = r, leaves = leaves temp \<union> leaves pol \<union> leaves target\<rparr>
           }, s'))"

definition sac_inner_sample_action ::
  "('d \<Rightarrow> squashed_gaussian) \<Rightarrow> 'd sac_impl \<Rightarrow> mat \<Rightarrow> store \<Rightarrow> mat \<times> store" where
  "sac_inner_sample_action build I x s =
     (let dist = build (val (call_policy (policy (modules I)) s x));
          (a, r') = sample dist (rng s)
      in (a, s\<lparr>rng := r'\<rparr>))"


section \<open>Discrete SAC\<close>

text \<open>\<^verbatim>\<open>DiscreteSACImpl.__init__\<close>: keeps its arguments and synchronises the target ensemble.\<close>

definition discrete_sac_init ::
  "nat \<Rightarrow> categorical sac_modules \<Rightarrow> nat list forwarder \<Rightarrow> nat list forwarder \<Rightarrow> real
   \<Rightarrow> (string \<Rightarrow> store \<Rightarrow> batch \<Rightarrow> addr \<Rightarrow> real list) \<Rightarrow> store
   \<Rightarrow> discrete_sac_impl \<times> store" where
  "discrete_sac_init asize ms qf tqf g ag s =
     (\<lparr>modules = ms, gamma = g, q_func_forwarder = qf, targ_q_func_forwarder = tqf,
       action_size = asize, autograd = ag\<rparr>,
      hard_sync (targ_q_funcs ms) (q_funcs ms) s)"

definition discrete_sac_compute_target ::
  "discrete_sac_impl \<Rightarrow> batch \<Rightarrow> store \<Rightarrow> tensor tracked option \<times> store" where
  "discrete_sac_compute_target I b =
     no_grad (\<lambda>s.
       let dist = call_policy (policy (modules I)) s (next_observations b);
           log_probs = logits (val dist);
           probs0 = probs (val dist);
           temp = call_parameter (log_temp (modules I)) s;
           target = compute_target (targ_q_func_forwarder I) s (next_observations b) None None
       in (do {
             entropy0 \<leftarrow> bop2 (*) (texp (val temp)) log_probs;
             let (entropy, probs1, keepdims) =
                   (if tdim (val target) = 3
                    then (T3 (unsqueeze_last entropy0), T3 (unsqueeze_last probs0), False)
                    else (T2 entropy0, T2 probs0, True));
             d \<leftarrow> tbop (-) (val target) entropy;
             w \<leftarrow> tbop (*) probs1 d;
             r \<leftarrow> tsum_dim1 w keepdims;
             Some \<lparr>val = r, leaves = leaves dist \<union> leaves temp \<union> leaves target\<rparr>
           }, s))"

definition discrete_sac_compute_critic_loss ::
  "discrete_sac_impl \<Rightarrow> batch \<Rightarrow> tensor tracked \<Rightarrow> store \<Rightarrow> real tracked option" where
  "discrete_sac_compute_critic_loss I b q_tpn s =
     compute_error (q_func_forwarder I) s (observations b) (long (actions b)) (rewards b)
       q_tpn (terminals b) (map (map (\<lambda>n. gamma I ^ n)) (intervals b))"

definition discrete_sac_update_critic ::
  "discrete_sac_impl \<Rightarrow> batch \<Rightarrow> store \<Rightarrow> metrics option \<times> store" where
  "discrete_sac_update_critic I b =
     train_api (\<lambda>s.
       let s1 = zero_grad (critic_optim (modules I)) s;
           (q_tpn, s2) = discrete_sac_compute_target I b s1
       in (case q_tpn of
             None \<Rightarrow> (None, s2)
           | Some q \<Rightarrow>
               (case discrete_sac_compute_critic_loss I b q s2 of
                  None \<Rightarrow> (None, s2)
                | Some loss \<Rightarrow>
                    (case backward (autograd I ''critic_loss'' s1 b) loss s2 of
                       None \<Rightarrow> (None, s2)
                     | Some s3 \<Rightarrow>
                         (Some [(''critic_loss'', val loss)],
                          step (critic_optim (modules I)) s3)))))"

definition discrete_sac_compute_actor_loss ::
  "discrete_sac_impl \<Rightarrow> batch \<Rightarrow> store \<Rightarrow> real tracked option \<times> store" where
  "discrete_sac_compute_actor_loss I b s =
     (let (q_t, s1) =
            no_grad (\<lambda>s. (compute_expected_q (q_func_forwarder I) s (observations b) None
                            (Some ''min''), s)) s;
          dist = call_policy (policy (modules I)) s1 (observations b);
          log_probs = logits (val dist);
          probs0 = probs (val dist);
          temp = call_parameter (log_temp (modules I)) s1
      in (do {
            entropy \<leftarrow> bop2 (*) (texp (val temp)) log_probs;
            d \<leftarrow> bop2 (-) entropy (val q_t);
            w \<leftarrow> bop2 (*) probs0 d;
            v \<leftarrow> tsum_dim1 (T2 w) False;
            m \<leftarrow> tmean v;
            Some \<lparr>val = m, leaves = leaves dist \<union> leaves temp \<union> leaves q_t\<rparr>
          }, s1))"

definition discrete_sac_update_actor ::
  "discrete_sac_impl \<Rightarrow> batch \<Rightarrow> store \<Rightarrow> metrics option \<times> store" where
  "discrete_sac_update_actor I b =
     train_api (\<lambda>s.
       let s0 = s\<lparr>training := (training s)(q_funcs (modules I) := False)\<rparr>;
           s1 = zero_grad (actor_optim (modules I)) s0;
           (l, s2) = discrete_sac_compute_actor_loss I b s1
       in (case l of
             None \<Rightarrow> (None, s2)
           | Some loss \<Rightarrow>
               (case backward (autograd I ''actor_loss'' s1 b) loss s2 of
                  None \<Rightarrow> (None, s2)
                | Some s3 \<Rightarrow>
                    (Some [(''actor_loss'', val loss)], step (actor_optim (modules I)) s3))))"

text \<open>The values that the gradient-free block of \<^verbatim>\<open>update_temp\<close> binds.
  \<^verbatim>\<open>1 / self.action_size\<close> raises for an action size of 0.\<close>

record temp_locals =
  expct_log_probs :: mat
  entropy_target :: real
  targ_temp :: mat

definition discrete_sac_temp_block ::
  "discrete_sac_impl \<Rightarrow> batch \<Rightarrow> store \<Rightarrow> temp_locals tracked option \<times> store" where
  "discrete_sac_temp_block I b =
     no_grad (\<lambda>s.
       let dist = call_policy (policy (modules I)) s (observations b);
           log_probs = log_softmax (logits (val dist));
           probs0 = probs (val dist)
       in (do {
             w \<leftarrow> bop2 (*) probs0 log_probs;
             let expct = map (\<lambda>r. [sum_list r]) w;
             et \<leftarrow> (if action_size I = 0 then None
                    else Some (0.98 * (- ln (1 / real (action_size I)))));
             Some \<lparr>val = \<lparr>expct_log_probs = expct, entropy_target = et,
                          targ_temp = map (map (\<lambda>x. x + et)) expct\<rparr>,
                   leaves = leaves dist\<rparr>
           }, s))"

definition discrete_sac_update_temp ::
  "discrete_sac_impl \<Rightarrow> batch \<Rightarrow> store \<Rightarrow> metrics option \<times> store" where
  "discrete_sac_update_temp I b =
     train_api (\<lambda>s.
       let s1 = zero_grad (temp_optim (modules I)) s;
           (blk, s2) = discrete_sac_temp_block I b s1
       in (case blk of
             None \<Rightarrow> (None, s2)
           | Some loc \<Rightarrow>
               (let temp = call_parameter (log_temp (modules I)) s2
                in (case (do {
                            p \<leftarrow> bop2 (*) (texp (val temp)) (targ_temp (val loc));
                            m \<leftarrow> tmean (T2 p);
                            Some \<lparr>val = - m, leaves = leaves temp \<union> leaves loc\<rparr>
                          }) of
                      None \<Rightarrow> (None, s2)
                    | Some loss \<Rightarrow>
                        (case backward (autograd I ''temp_loss'' s1 b) loss s2 of
                           None \<Rightarrow> (None, s2)
                         | Some s3 \<Rightarrow>
                             (let s4 = step (temp_optim (modules I)) s3
                              in (case texp (val (call_parameter (log_temp (modules I)) s4)) of
                                    (cur_temp # r0) # rs \<Rightarrow>
                                      (Some [(''temp_loss'', val loss), (''temp'', cur_temp)],
                                       s4)
                                  | _ \<Rightarrow> (None, s4))))))))"

definition discrete_sac_inner_predict_best_action ::
  "discrete_sac_impl \<Rightarrow> mat \<Rightarrow> store \<Rightarrow> nat list option" where
  "discrete_sac_inner_predict_best_action I x s =
     argmax_dim1 (probs (val (call_policy (policy (modules I)) s x)))"

definition discrete_sac_update_target :: "discrete_sac_impl \<Rightarrow> store \<Rightarrow> store" where
  "discrete_sac_update_target I s =
     hard_sync (targ_q_funcs (modules I)) (q_funcs (modules I)) s"


section \<open>Example inputs\<close>

text \<open>
  A small store, optimizers doing plain gradient descent, forwarders whose Q-values are
  their parameters, a categorical policy that is uniform at observation 0 and (1/4, 3/4)
  elsewhere, a Gaussian policy whose sample is its mean, and two mini-batches. The
  theorems are applied to them below.
\<close>

definition example_store :: store where
  "example_store =
     \<lparr>params = (\<lambda>a. if a = 3 then [0] else if a = 2 then [5, 1] else [1, 2]),
      grads = (\<lambda>a. None), training = (\<lambda>a. True), opt_state = (\<lambda>a. []),
      grad_enabled = True, rng = 0\<rparr>"

definition example_optimizer :: "addr \<Rightarrow> addr list \<Rightarrow> optimizer" where
  "example_optimizer a ps =
     \<lparr>opt_addr = a, owned = ps, rule = (\<lambda>st p g. map2 (\<lambda>x y. x - y / 10) p g),
      advance = (\<lambda>st. st)\<rparr>"

definition example_forwarder :: "addr \<Rightarrow> nat list forwarder" where
  "example_forwarder a =
     \<lparr>ensemble = a,
      fwd_compute_expected_q = (\<lambda>w x act red. map (\<lambda>row. w) x),
      fwd_compute_target =
        (\<lambda>w x act red. case act of None \<Rightarrow> T2 (map (\<lambda>row. w) x)
                                   | Some as \<Rightarrow> T2 (map (\<lambda>i. [w ! i]) as)),
      fwd_td_error = (\<lambda>w x acts y. sum_list (map (\<lambda>v. (hd w - v)\<^sup>2) (flatten y)))\<rparr>"

definition example_policy :: "categorical policy_module" where
  "example_policy =
     \<lparr>p_addr = 0,
      p_forward = (\<lambda>w x. \<lparr>logits = map (\<lambda>row. if hd row = 0 then [ln (1/2), ln (1/2)]
                                               else [ln (1/4), ln (3/4)]) x,
                            probs = map (\<lambda>row. if hd row = 0 then [1/2, 1/2]
                                              else [1/4, 3/4]) x\<rparr>)\<rparr>"

definition example_autograd :: "string \<Rightarrow> store \<Rightarrow> batch \<Rightarrow> addr \<Rightarrow> real list" where
  "example_autograd name s b a = map (\<lambda>x. 1) (params s a)"

definition example_discrete_sac :: discrete_sac_impl where
  "example_discrete_sac =
     \<lparr>modules = \<lparr>q_funcs = 1, targ_q_funcs = 2, policy = example_policy, log_temp = 3,
                  actor_optim = example_optimizer 10 [0],
                  critic_optim = example_optimizer 11 [1],
                  temp_optim = example_optimizer 12 [3]\<rparr>,
      gamma = 1/2, q_func_forwarder = example_forwarder 1,
      targ_q_func_forwarder = example_forwarder 2, action_size = 2,
      autograd = example_autograd\<rparr>"

definition example_batch :: batch where
  "example_batch =
     \<lparr>observations = [[0]], actions = [[1]], rewards = [[3]], next_observations = [[0]],
      terminals = [[0]], intervals = [[2]]\<rparr>"

definition example_continuous_forwarder :: "addr \<Rightarrow> mat forwarder" where
  "example_continuous_forwarder a =
     \<lparr>ensemble = a,
      fwd_compute_expected_q =
        (\<lambda>w x act red. case act of None \<Rightarrow> [] | Some u \<Rightarrow> map (\<lambda>row. [hd w + sum_list row]) u),
      fwd_compute_target =
        (\<lambda>w x act red. case act of None \<Rightarrow> T2 []
                                   | Some u \<Rightarrow> T2 (map (\<lambda>row. [hd w + sum_list row]) u)),
      fwd_td_error = (\<lambda>w x acts y. sum_list (map (\<lambda>v. (hd w - v)\<^sup>2) (flatten y)))\<rparr>"

definition example_normal_policy :: "mat policy_module" where
  "example_normal_policy = \<lparr>p_addr = 0, p_forward = (\<lambda>w x. map (\<lambda>row. [hd w + hd row]) x)\<rparr>"

definition example_build :: "mat \<Rightarrow> squashed_gaussian" where
  "example_build mu =
     \<lparr>sample_with_log_prob = (\<lambda>g. ((mu, map (\<lambda>row. [- hd row - real g]) mu), Suc g)),
      sample = (\<lambda>g. (mu, Suc g))\<rparr>"

definition example_sac :: "mat sac_impl" where
  "example_sac =
     \<lparr>modules = \<lparr>q_funcs = 1, targ_q_funcs = 2, policy = example_normal_policy, log_temp = 3,
                  actor_optim = example_optimizer 10 [0],
                  critic_optim = example_optimizer 11 [1],
                  temp_optim = example_optimizer 12 [3]\<rparr>,
      gamma = 1/2, q_func_forwarder = example_continuous_forwarder 1,
      targ_q_func_forwarder = example_continuous_forwarder 2, action_size = 1,
      autograd = example_autograd\<rparr>"

definition example_batch2 :: batch where
  "example_batch2 =
     \<lparr>observations = [[0], [1]], actions = [[1], [0]], rewards = [[3], [4]],
      next_observations = [[1], [0]], terminals = [[0], [1]], intervals = [[2], [1]]\<rparr>"

definition example_dqn :: dqn_impl where
  "example_dqn =
     \<lparr>modules = \<lparr>q_funcs = 1, targ_q_funcs = 2, optim = example_optimizer 10 [1]\<rparr>,
      gamma = 1/2, q_func_forwarder = example_forwarder 1,
      targ_q_func_forwarder = example_forwarder 2, action_size = 2,
      autograd = example_autograd\<rparr>"

definition example_quantile_forwarder :: "addr \<Rightarrow> nat list forwarder" where
  "example_quantile_forwarder a =
     \<lparr>ensemble = a,
      fwd_compute_expected_q = (\<lambda>w x act red. map (\<lambda>row. w) x),
      fwd_compute_target =
        (\<lambda>w x act red. case act of None \<Rightarrow> T3 (map (\<lambda>row. map (\<lambda>v. [v, v + 1]) w) x)
                                   | Some as \<Rightarrow> T2 (map (\<lambda>i. [w ! i, w ! i + 1]) as)),
      fwd_td_error = (\<lambda>w x acts y. sum_list (map (\<lambda>v. (hd w - v)\<^sup>2) (flatten y)))\<rparr>"

definition example_quantile_discrete_sac :: discrete_sac_impl where
  "example_quantile_discrete_sac =
     example_discrete_sac\<lparr>targ_q_func_forwarder := example_quantile_forwarder 2\<rparr>"

definition example_batch3 :: batch where
  "example_batch3 =
     \<lparr>observations = [[1]], actions = [[0]], rewards = [[1]], next_observations = [[0]],
      terminals = [[0]], intervals = [[1]]\<rparr>"

section \<open>Properties of the tensor operations\<close>

text \<open>\<open>argmax_dim1\<close> returns, for every row, an index inside the row whose entry is maximal,
  and the first such index.\<close>

lemma argmax_acc_correct:
  "best < length pre \<Longrightarrow> pre ! best = bv \<Longrightarrow> \<forall>j<length pre. pre ! j \<le> bv \<Longrightarrow>
   \<forall>j<best. pre ! j < bv \<Longrightarrow> i = length pre \<Longrightarrow>
   argmax_acc best bv i xs < length (pre @ xs) \<and>
   (\<forall>j<length (pre @ xs). (pre @ xs) ! j \<le> (pre @ xs) ! argmax_acc best bv i xs) \<and>
   (\<forall>j<argmax_acc best bv i xs. (pre @ xs) ! j < (pre @ xs) ! argmax_acc best bv i xs)"
proof (induction xs arbitrary: pre best bv i)
  case Nil
  then show ?case by simp
next
  case (Cons x xs)
  show ?case
  proof (cases "bv < x")
    case True
    have a: "i < length (pre @ [x])" using Cons.prems by simp
    have b: "(pre @ [x]) ! i = x" using Cons.prems by simp
    have c: "\<forall>j<length (pre @ [x]). (pre @ [x]) ! j \<le> x"
    proof (intro allI impI)
      fix j assume j: "j < length (pre @ [x])"
      show "(pre @ [x]) ! j \<le> x"
      proof (cases "j < length pre")
        case True
        with Cons.prems(3) have "pre ! j \<le> bv" by simp
        with \<open>bv < x\<close> True show ?thesis by (simp add: nth_append)
      next
        case False
        with j show ?thesis by (simp add: nth_append)
      qed
    qed
    have d: "\<forall>j<i. (pre @ [x]) ! j < x"
    proof (intro allI impI)
      fix j assume j: "j < i"
      with Cons.prems have "pre ! j \<le> bv" by simp
      with \<open>bv < x\<close> j Cons.prems(5) show "(pre @ [x]) ! j < x" by (simp add: nth_append)
    qed
    have e: "Suc i = length (pre @ [x])" using Cons.prems by simp
    from Cons.IH[OF a b c d e] True show ?thesis by simp
  next
    case False
    have a: "best < length (pre @ [x])" using Cons.prems by simp
    have b: "(pre @ [x]) ! best = bv" using Cons.prems by (simp add: nth_append)
    have c: "\<forall>j<length (pre @ [x]). (pre @ [x]) ! j \<le> bv"
      using Cons.prems False by (auto simp: nth_append less_Suc_eq)
    have d: "\<forall>j<best. (pre @ [x]) ! j < bv"
      using Cons.prems by (auto simp: nth_append)
    have e: "Suc i = length (pre @ [x])" using Cons.prems by simp
    from Cons.IH[OF a b c d e] False show ?thesis by simp
  qed
qed

lemma argmax_row_first_max:
  assumes "argmax_row r = Some k"
  shows "k < length r \<and> (\<forall>j<length r. r ! j \<le> r ! k) \<and> (\<forall>j<k. r ! j < r ! k)"
proof (cases r)
  case Nil
  with assms show ?thesis by (simp add: argmax_row_def)
next
  case (Cons x xs)
  have "argmax_acc 0 x 1 xs < length ([x] @ xs) \<and>
   (\<forall>j<length ([x] @ xs). ([x] @ xs) ! j \<le> ([x] @ xs) ! argmax_acc 0 x 1 xs) \<and>
   (\<forall>j<argmax_acc 0 x 1 xs. ([x] @ xs) ! j < ([x] @ xs) ! argmax_acc 0 x 1 xs)"
    by (rule argmax_acc_correct) simp_all
  with assms Cons show ?thesis by (simp add: argmax_row_def)
qed

lemma those_Some_nth:
  "those xs = Some ys \<Longrightarrow> length ys = length xs \<and> (\<forall>i<length xs. xs ! i = Some (ys ! i))"
proof (induction xs arbitrary: ys)
  case Nil
  then show ?case by simp
next
  case (Cons x xs)
  then show ?case
    by (auto split: option.splits simp: nth_Cons split: nat.splits)
qed

lemma argmax_dim1_first_max:
  assumes "argmax_dim1 m = Some ks" and "i < length m"
  shows "length ks = length m \<and> ks ! i < length (m ! i) \<and>
         (\<forall>j<length (m ! i). m ! i ! j \<le> m ! i ! (ks ! i)) \<and>
         (\<forall>j<ks ! i. m ! i ! j < m ! i ! (ks ! i))"
proof -
  from assms(1) have t: "those (map argmax_row m) = Some ks" by (simp add: argmax_dim1_def)
  from those_Some_nth[OF t] assms(2) have l: "length ks = length m"
    and r: "argmax_row (m ! i) = Some (ks ! i)" by auto
  from argmax_row_first_max[OF r] l show ?thesis by simp
qed

text \<open>\<open>argmax_dim1\<close> fails exactly when a row is empty; otherwise it gives one index per
  row, and that index is the first maximal one.\<close>

lemma those_map_None: "those (map f xs) = None \<longleftrightarrow> (\<exists>x\<in>set xs. f x = None)"
  by (induction xs) (auto split: option.splits)

lemma argmax_row_None: "argmax_row r = None \<longleftrightarrow> r = []"
  by (cases r) (simp_all add: argmax_row_def)

lemma argmax_dim1_None: "argmax_dim1 m = None \<longleftrightarrow> (\<exists>i<length m. m ! i = [])"
proof -
  have "argmax_dim1 m = None \<longleftrightarrow> (\<exists>r\<in>set m. r = [])"
    by (simp add: argmax_dim1_def those_map_None argmax_row_None)
  also have "\<dots> \<longleftrightarrow> (\<exists>i<length m. m ! i = [])"
    by (auto simp: in_set_conv_nth)
  finally show ?thesis .
qed

lemma argmax_dim1_characterised:
  "(case argmax_dim1 m of
      None \<Rightarrow> (\<exists>i<length m. m ! i = [])
    | Some ks \<Rightarrow>
        length ks = length m \<and>
        (\<forall>i<length m. ks ! i < length (m ! i) \<and>
           (\<forall>j<length (m ! i). m ! i ! j \<le> m ! i ! (ks ! i)) \<and>
           (\<forall>j<ks ! i. m ! i ! j < m ! i ! (ks ! i))))"
proof (cases "argmax_dim1 m")
  case None
  with argmax_dim1_None[of m] show ?thesis by simp
next
  case (Some ks)
  have "those (map argmax_row m) = Some ks" using Some by (simp add: argmax_dim1_def)
  from those_Some_nth[OF this] have l: "length ks = length m" by simp
  have r: "\<forall>i<length m. ks ! i < length (m ! i) \<and>
           (\<forall>j<length (m ! i). m ! i ! j \<le> m ! i ! (ks ! i)) \<and>
           (\<forall>j<ks ! i. m ! i ! j < m ! i ! (ks ! i))"
  proof (intro allI impI)
    fix i assume i: "i < length m"
    from argmax_dim1_first_max[OF Some i]
    show "ks ! i < length (m ! i) \<and>
           (\<forall>j<length (m ! i). m ! i ! j \<le> m ! i ! (ks ! i)) \<and>
           (\<forall>j<ks ! i. m ! i ! j < m ! i ! (ks ! i))" by blast
  qed
  from Some l r show ?thesis by simp
qed

text \<open>Broadcasting, written out by index for the shapes the update rules meet.\<close>

lemma those_eq_Some: "those zs = Some ws \<longleftrightarrow> zs = map Some ws"
proof (induction zs arbitrary: ws)
  case Nil
  then show ?case by auto
next
  case (Cons z zs)
  then show ?case by (cases z; cases ws) auto
qed

lemma those_map_Some: "those (map (\<lambda>i. Some (g i)) is) = Some (map g is)"
  by (simp add: those_eq_Some)

lemma as_indexed: "length xs = n \<Longrightarrow> xs = map (\<lambda>i. xs ! i) [0..<n]"
  by (auto simp: map_nth)

lemma bcast_same:
  assumes "length xs = n" and "length ys = n"
    and "\<And>i. i < n \<Longrightarrow> f (xs ! i) (ys ! i) = Some (g i)"
  shows "bcast f xs ys = Some (map g [0..<n])"
proof -
  have "map2 f xs ys = map Some (map g [0..<n])"
    using assms by (intro nth_equalityI) auto
  then show ?thesis using assms by (simp add: bcast_def those_eq_Some)
qed

lemma bcast_left:
  assumes "length ys = n" and "\<And>i. i < n \<Longrightarrow> f x (ys ! i) = Some (g i)"
  shows "bcast f [x] ys = Some (map g [0..<n])"
proof (cases "n = 1")
  case True
  have "bcast f [x] ys = Some (map g [0..<n])"
  proof (rule bcast_same)
    show "length [x] = n" using True by simp
    show "length ys = n" by (rule assms(1))
    fix i assume "i < n"
    with True assms(2)[of i] show "f ([x] ! i) (ys ! i) = Some (g i)" by simp
  qed
  then show ?thesis .
next
  case False
  have "map (f x) ys = map Some (map g [0..<n])"
    using assms by (intro nth_equalityI) auto
  with False assms(1) show ?thesis by (simp add: bcast_def those_eq_Some)
qed

lemma bcast_right:
  assumes "length xs = n" and "\<And>i. i < n \<Longrightarrow> f (xs ! i) y = Some (g i)"
  shows "bcast f xs [y] = Some (map g [0..<n])"
proof (cases "n = 1")
  case True
  have "bcast f xs [y] = Some (map g [0..<n])"
  proof (rule bcast_same)
    show "length xs = n" by (rule assms(1))
    show "length [y] = n" using True by simp
    fix i assume "i < n"
    with True assms(2)[of i] show "f (xs ! i) ([y] ! i) = Some (g i)" by simp
  qed
  then show ?thesis .
next
  case False
  have "map (\<lambda>x. f x y) xs = map Some (map g [0..<n])"
    using assms by (intro nth_equalityI) auto
  with False assms(1) show ?thesis by (auto simp add: bcast_def those_eq_Some)
qed

lemma has_shape2_nth: "has_shape2 m B A \<Longrightarrow> i < B \<Longrightarrow> length (m ! i) = A"
  by (auto simp: has_shape2_def list_all_length)

lemma has_shape2_length: "has_shape2 m B A \<Longrightarrow> length m = B"
  by (simp add: has_shape2_def)

lemma has_shape3_nth: "has_shape3 c B A N \<Longrightarrow> i < B \<Longrightarrow> has_shape2 (c ! i) A N"
  by (auto simp: has_shape3_def list_all_length)

lemma has_shape3_length: "has_shape3 c B A N \<Longrightarrow> length c = B"
  by (simp add: has_shape3_def)

lemma singleton_nth: "length r = Suc 0 \<Longrightarrow> r = [r ! 0]"
  by (cases r) auto

lemma bop2_columns:
  assumes "has_shape2 m B 1" and "has_shape2 n B 1"
  shows "bop2 f m n = Some (map (\<lambda>i. [f (m ! i ! 0) (n ! i ! 0)]) [0..<B])"
  unfolding bop2_def
proof (rule bcast_same)
  show "length m = B" "length n = B" using assms by (simp_all add: has_shape2_def)
  fix i assume i: "i < B"
  from has_shape2_nth[OF assms(1) i] have a: "m ! i = [m ! i ! 0]" by (simp add: singleton_nth)
  from has_shape2_nth[OF assms(2) i] have b: "n ! i = [n ! i ! 0]" by (simp add: singleton_nth)
  have "bop1 f [m ! i ! 0] [n ! i ! 0] = Some [f (m ! i ! 0) (n ! i ! 0)]"
    by (simp add: bop1_def bcast_def bop0_def)
  with a b show "bop1 f (m ! i) (n ! i) = Some [f (m ! i ! 0) (n ! i ! 0)]" by simp
qed

lemma bop2_scalar_column:
  assumes "has_shape2 n B 1"
  shows "bop2 f [[c]] n = Some (map (\<lambda>i. [f c (n ! i ! 0)]) [0..<B])"
  unfolding bop2_def
proof (rule bcast_left)
  show "length n = B" using assms by (simp add: has_shape2_def)
  fix i assume i: "i < B"
  from has_shape2_nth[OF assms(1) i] have b: "n ! i = [n ! i ! 0]" by (simp add: singleton_nth)
  have "bop1 f [c] [n ! i ! 0] = Some [f c (n ! i ! 0)]"
    by (simp add: bop1_def bcast_def bop0_def)
  with b show "bop1 f [c] (n ! i) = Some [f c (n ! i ! 0)]" by simp
qed

lemma tmean_column:
  assumes "0 < B"
  shows "tmean (T2 (map (\<lambda>i. [g i]) [0..<B])) = Some ((\<Sum>i<B. g i) / real B)"
proof -
  have c: "concat (map (\<lambda>i. [g i]) [0..<B]) = map g [0..<B]"
    by (induction B) auto
  have s: "sum_list (map g [0..<B]) = (\<Sum>i<B. g i)"
    by (simp add: interv_sum_list_conv_sum_set_nat atLeast0LessThan)
  show ?thesis using assms by (simp add: tmean_def c s)
qed

lemma tbop_T2: "tbop f (T2 m) (T2 n) = map_option T2 (bop2 f m n)"
  by (cases "bop2 f m n") (simp_all add: tbop_def bop3_def bcast_def of_cube_def)

lemma has_shape2_column: "has_shape2 (map (\<lambda>i. [g i]) [0..<B]) B 1"
  by (simp add: has_shape2_def list_all_iff)

lemma has_shape2_map_map: "has_shape2 m B A \<Longrightarrow> has_shape2 (map (map f) m) B A"
  by (simp add: has_shape2_def list_all_iff)

lemma bop1_left: "length ys = N \<Longrightarrow> bop1 f [a] ys = Some (map (\<lambda>j. f a (ys ! j)) [0..<N])"
  unfolding bop1_def by (rule bcast_left) (simp_all add: bop0_def)

lemma bop1_right: "length xs = N \<Longrightarrow> bop1 f xs [b] = Some (map (\<lambda>j. f (xs ! j) b) [0..<N])"
  unfolding bop1_def by (rule bcast_right) (simp_all add: bop0_def)

lemma bop1_same:
  "length xs = N \<Longrightarrow> length ys = N \<Longrightarrow>
   bop1 f xs ys = Some (map (\<lambda>j. f (xs ! j) (ys ! j)) [0..<N])"
  unfolding bop1_def by (rule bcast_same) (simp_all add: bop0_def)

lemma has_shape2_table: "has_shape2 (map (\<lambda>i. map (g i) [0..<N]) [0..<B]) B N"
  by (simp add: has_shape2_def list_all_iff)

lemma bop2_col_mat:
  assumes "has_shape2 m B 1" and "has_shape2 n B N"
  shows "bop2 f m n = Some (map (\<lambda>i. map (\<lambda>j. f (m ! i ! 0) (n ! i ! j)) [0..<N]) [0..<B])"
  unfolding bop2_def
proof (rule bcast_same)
  show "length m = B" "length n = B" using assms by (simp_all add: has_shape2_def)
  fix i assume i: "i < B"
  from has_shape2_nth[OF assms(1) i] have a: "m ! i = [m ! i ! 0]" by (simp add: singleton_nth)
  have "bop1 f [m ! i ! 0] (n ! i) = Some (map (\<lambda>j. f (m ! i ! 0) (n ! i ! j)) [0..<N])"
    by (rule bop1_left[OF has_shape2_nth[OF assms(2) i]])
  with a show "bop1 f (m ! i) (n ! i) = Some (map (\<lambda>j. f (m ! i ! 0) (n ! i ! j)) [0..<N])"
    by simp
qed

lemma bop2_mat_col:
  assumes "has_shape2 m B N" and "has_shape2 n B 1"
  shows "bop2 f m n = Some (map (\<lambda>i. map (\<lambda>j. f (m ! i ! j) (n ! i ! 0)) [0..<N]) [0..<B])"
  unfolding bop2_def
proof (rule bcast_same)
  show "length m = B" "length n = B" using assms by (simp_all add: has_shape2_def)
  fix i assume i: "i < B"
  from has_shape2_nth[OF assms(2) i] have a: "n ! i = [n ! i ! 0]" by (simp add: singleton_nth)
  have "bop1 f (m ! i) [n ! i ! 0] = Some (map (\<lambda>j. f (m ! i ! j) (n ! i ! 0)) [0..<N])"
    by (rule bop1_right[OF has_shape2_nth[OF assms(1) i]])
  with a show "bop1 f (m ! i) (n ! i) = Some (map (\<lambda>j. f (m ! i ! j) (n ! i ! 0)) [0..<N])"
    by simp
qed

lemma bop2_same:
  assumes "has_shape2 m B N" and "has_shape2 n B N"
  shows "bop2 f m n = Some (map (\<lambda>i. map (\<lambda>j. f (m ! i ! j) (n ! i ! j)) [0..<N]) [0..<B])"
  unfolding bop2_def
proof (rule bcast_same)
  show "length m = B" "length n = B" using assms by (simp_all add: has_shape2_def)
  fix i assume i: "i < B"
  show "bop1 f (m ! i) (n ! i) = Some (map (\<lambda>j. f (m ! i ! j) (n ! i ! j)) [0..<N])"
    by (rule bop1_same[OF has_shape2_nth[OF assms(1) i] has_shape2_nth[OF assms(2) i]])
qed

lemma bop2_scalar_mat:
  assumes "has_shape2 n B N"
  shows "bop2 f [[c]] n = Some (map (\<lambda>i. map (\<lambda>j. f c (n ! i ! j)) [0..<N]) [0..<B])"
  unfolding bop2_def
proof (rule bcast_left)
  show "length n = B" using assms by (simp add: has_shape2_def)
  fix i assume i: "i < B"
  show "bop1 f [c] (n ! i) = Some (map (\<lambda>j. f c (n ! i ! j)) [0..<N])"
    by (rule bop1_left[OF has_shape2_nth[OF assms i]])
qed

lemma table_cong:
  "(\<And>i j. i < B \<Longrightarrow> j < N \<Longrightarrow> g i j = h i j) \<Longrightarrow>
   map (\<lambda>i. map (g i) [0..<N]) [0..<B] = map (\<lambda>i. map (h i) [0..<N]) [0..<B]"
  by simp

lemma map_map_nth:
  "has_shape2 m B A \<Longrightarrow> i < B \<Longrightarrow> j < A \<Longrightarrow> map (map f) m ! i ! j = f (m ! i ! j)"
  by (auto simp: has_shape2_def list_all_length)

lemma sum_rows_columns:
  assumes "rows \<noteq> []" and "list_all (\<lambda>r. length r = N) rows"
  shows "sum_rows rows = map (\<lambda>n. sum_list (map (\<lambda>r. r ! n) rows)) [0..<N]"
  using assms
proof (induction rows rule: sum_rows.induct)
  case 1
  then show ?case by simp
next
  case (2 r)
  then have "length r = N" by simp
  with map_nth[of r] show ?case by simp
next
  case (3 r v va)
  then have ih: "sum_rows (v # va) = map (\<lambda>n. sum_list (map (\<lambda>r. r ! n) (v # va))) [0..<N]"
    by simp
  from 3 have lr: "length r = N" by simp
  show ?case
    unfolding sum_rows.simps ih
    by (rule nth_equalityI) (simp_all add: lr)
qed

lemma sum_rows_table:
  assumes "0 < A"
  shows "sum_rows (map (\<lambda>a. map (g a) [0..<N]) [0..<A]) = map (\<lambda>n. \<Sum>a<A. g a n) [0..<N]"
proof -
  have ne: "map (\<lambda>a. map (g a) [0..<N]) [0..<A] \<noteq> []" using assms by simp
  have all: "list_all (\<lambda>r. length r = N) (map (\<lambda>a. map (g a) [0..<N]) [0..<A])"
    by (simp add: list_all_iff)
  have "sum_rows (map (\<lambda>a. map (g a) [0..<N]) [0..<A]) =
        map (\<lambda>n. sum_list (map (\<lambda>r. r ! n) (map (\<lambda>a. map (g a) [0..<N]) [0..<A]))) [0..<N]"
    by (rule sum_rows_columns[OF ne all])
  also have "\<dots> = map (\<lambda>n. \<Sum>a<A. g a n) [0..<N]"
  proof (rule map_cong[OF refl])
    fix n assume "n \<in> set [0..<N]"
    then have n: "n < N" by simp
    have "map (\<lambda>r. r ! n) (map (\<lambda>a. map (g a) [0..<N]) [0..<A]) = map (\<lambda>a. g a n) [0..<A]"
      using n by simp
    then show "sum_list (map (\<lambda>r. r ! n) (map (\<lambda>a. map (g a) [0..<N]) [0..<A])) = (\<Sum>a<A. g a n)"
      by (simp add: interv_sum_list_conv_sum_set_nat atLeast0LessThan)
  qed
  finally show ?thesis .
qed

lemma has_shape3_table:
  "has_shape3 (map (\<lambda>i. map (\<lambda>a. map (g i a) [0..<N]) [0..<A]) [0..<B]) B A N"
  by (simp add: has_shape3_def has_shape2_def list_all_iff)

lemma has_shape3_unsqueeze: "has_shape2 m B A \<Longrightarrow> has_shape3 (unsqueeze_last m) B A 1"
  by (simp add: has_shape3_def has_shape2_def unsqueeze_last_def list_all_iff)

lemma unsqueeze_last_nth:
  "has_shape2 m B A \<Longrightarrow> i < B \<Longrightarrow> a < A \<Longrightarrow> unsqueeze_last m ! i ! a ! 0 = m ! i ! a"
  by (auto simp: has_shape2_def unsqueeze_last_def list_all_length)

lemma bop3_cube_col:
  assumes "has_shape3 c B A N" and "has_shape3 e B A 1"
  shows "bop3 f c e =
         Some (map (\<lambda>i. map (\<lambda>a. map (\<lambda>n. f (c ! i ! a ! n) (e ! i ! a ! 0)) [0..<N]) [0..<A])
                 [0..<B])"
  unfolding bop3_def
proof (rule bcast_same)
  show "length c = B" "length e = B" using assms by (simp_all add: has_shape3_def)
  fix i assume i: "i < B"
  show "bop2 f (c ! i) (e ! i) =
        Some (map (\<lambda>a. map (\<lambda>n. f (c ! i ! a ! n) (e ! i ! a ! 0)) [0..<N]) [0..<A])"
    by (rule bop2_mat_col[OF has_shape3_nth[OF assms(1) i] has_shape3_nth[OF assms(2) i]])
qed

lemma bop3_col_cube:
  assumes "has_shape3 p B A 1" and "has_shape3 d B A N"
  shows "bop3 f p d =
         Some (map (\<lambda>i. map (\<lambda>a. map (\<lambda>n. f (p ! i ! a ! 0) (d ! i ! a ! n)) [0..<N]) [0..<A])
                 [0..<B])"
  unfolding bop3_def
proof (rule bcast_same)
  show "length p = B" "length d = B" using assms by (simp_all add: has_shape3_def)
  fix i assume i: "i < B"
  show "bop2 f (p ! i) (d ! i) =
        Some (map (\<lambda>a. map (\<lambda>n. f (p ! i ! a ! 0) (d ! i ! a ! n)) [0..<N]) [0..<A])"
    by (rule bop2_col_mat[OF has_shape3_nth[OF assms(1) i] has_shape3_nth[OF assms(2) i]])
qed

lemma tbop_T3: "tbop f (T3 c) (T3 e) = map_option T3 (bop3 f c e)"
  by (cases "bop3 f c e") (simp_all add: tbop_def of_cube_def)

lemma cube_cong:
  "(\<And>i a n. i < B \<Longrightarrow> a < A \<Longrightarrow> n < N \<Longrightarrow> g i a n = h i a n) \<Longrightarrow>
   map (\<lambda>i. map (\<lambda>a. map (g i a) [0..<N]) [0..<A]) [0..<B] =
   map (\<lambda>i. map (\<lambda>a. map (h i a) [0..<N]) [0..<A]) [0..<B]"
  by simp

section \<open>Action selection and targets of DQN\<close>

text \<open>
  C8. For every input tensor \<open>x\<close>, \<^verbatim>\<open>DQNImpl.inner_sample_action(x)\<close> returns exactly what
  \<^verbatim>\<open>DQNImpl.inner_predict_best_action(x)\<close> returns: the arg-max over dimension 1 of the
  live forwarder's expected Q at \<open>x\<close>, read at the live ensemble's current parameters.
  That is: the call fails exactly when a row of the expected Q is empty; otherwise it
  returns one action per row, the action is an index of the row, no entry of the row is
  larger than the entry at the action, and every entry before the action is smaller.
\<close>

theorem dqn_sample_action_is_best_action:
  "dqn_inner_sample_action I x s = dqn_inner_predict_best_action I x s
   \<and> dqn_inner_predict_best_action I x s =
       argmax_dim1 (fwd_compute_expected_q (q_func_forwarder I)
                      (params s (ensemble (q_func_forwarder I))) x None None)
   \<and> (let q = fwd_compute_expected_q (q_func_forwarder I)
                 (params s (ensemble (q_func_forwarder I))) x None None
      in case dqn_inner_sample_action I x s of
           None \<Rightarrow> (\<exists>i<length q. q ! i = [])
         | Some acts \<Rightarrow>
             length acts = length q \<and>
             (\<forall>i<length q. acts ! i < length (q ! i) \<and>
                (\<forall>j<length (q ! i). q ! i ! j \<le> q ! i ! (acts ! i)) \<and>
                (\<forall>j<acts ! i. q ! i ! j < q ! i ! (acts ! i))))"
  using argmax_dim1_characterised
    [of "fwd_compute_expected_q (q_func_forwarder I)
           (params s (ensemble (q_func_forwarder I))) x None None"]
  by (simp add: dqn_inner_sample_action_def dqn_inner_predict_best_action_def
      compute_expected_q_def Let_def)

text \<open>On the example the live ensemble's expected Q is (1, 2) in every row, and the action
  is 1.\<close>

theorem dqn_sample_action_is_best_action_witness:
  "dqn_inner_sample_action example_dqn [[0], [1]] example_store = Some [1, 1]
   \<and> dqn_inner_predict_best_action example_dqn [[0], [1]] example_store = Some [1, 1]"
proof -
  note th = dqn_sample_action_is_best_action [of example_dqn "[[0], [1]]" example_store]
  from th have a: "dqn_inner_sample_action example_dqn [[0], [1]] example_store =
      dqn_inner_predict_best_action example_dqn [[0], [1]] example_store"
    and b: "dqn_inner_predict_best_action example_dqn [[0], [1]] example_store =
       argmax_dim1 (fwd_compute_expected_q (q_func_forwarder example_dqn)
          (params example_store (ensemble (q_func_forwarder example_dqn))) [[0], [1]]
          None None)"
    by blast+
  have c: "argmax_dim1 (fwd_compute_expected_q (q_func_forwarder example_dqn)
          (params example_store (ensemble (q_func_forwarder example_dqn))) [[0], [1]]
          None None) = Some [1, 1]"
    by (simp add: argmax_dim1_def argmax_row_def example_dqn_def example_forwarder_def
        example_store_def)
  show ?thesis unfolding a b c by simp
qed

text \<open>
  C1. For every mini-batch, \<^verbatim>\<open>DQNImpl.compute_target\<close> takes the arg-max action of the
  target forwarder's expected Q over the next observations (\<open>tq\<close>), and
  \<^verbatim>\<open>DoubleDQNImpl.compute_target\<close> takes the arg-max action of the live forwarder's expected
  Q (\<open>lq\<close>) instead; both then return the target forwarder's \<^verbatim>\<open>compute_target\<close> at the next
  observations and that action under the reduction "min" (\<open>evaluate\<close> below), and nothing
  else differs between the two. The arg-max action is, per row, the index of the first
  maximal entry: it lies in the row, no entry of the row is larger than the entry at it,
  and every entry before it is smaller; the call fails exactly when a row is empty.
\<close>

theorem dqn_and_double_dqn_target:
  "let tf = targ_q_func_forwarder I; qf = q_func_forwarder I; x = next_observations b;
       evaluate = (\<lambda>a. untracked (fwd_compute_target tf (params s (ensemble tf)) x (Some a)
                                   (Some ''min'')));
       tq = fwd_compute_expected_q tf (params s (ensemble tf)) x None None;
       lq = fwd_compute_expected_q qf (params s (ensemble qf)) x None None
   in fst (dqn_compute_target I b s) = map_option evaluate (argmax_dim1 tq)
    \<and> fst (double_dqn_compute_target I b s) = map_option evaluate (argmax_dim1 lq)
    \<and> (case fst (dqn_compute_target I b s) of
          None \<Rightarrow> (\<exists>i<length tq. tq ! i = [])
        | Some r \<Rightarrow>
            (\<exists>acts. r = evaluate acts \<and> length acts = length tq \<and>
               (\<forall>i<length tq. acts ! i < length (tq ! i) \<and>
                  (\<forall>j<length (tq ! i). tq ! i ! j \<le> tq ! i ! (acts ! i)) \<and>
                  (\<forall>j<acts ! i. tq ! i ! j < tq ! i ! (acts ! i)))))
    \<and> (case fst (double_dqn_compute_target I b s) of
          None \<Rightarrow> (\<exists>i<length lq. lq ! i = [])
        | Some r \<Rightarrow>
            (\<exists>acts. r = evaluate acts \<and> length acts = length lq \<and>
               (\<forall>i<length lq. acts ! i < length (lq ! i) \<and>
                  (\<forall>j<length (lq ! i). lq ! i ! j \<le> lq ! i ! (acts ! i)) \<and>
                  (\<forall>j<acts ! i. lq ! i ! j < lq ! i ! (acts ! i)))))"
proof -
  let ?tf = "targ_q_func_forwarder I" and ?qf = "q_func_forwarder I"
  let ?x = "next_observations b"
  let ?ev = "\<lambda>a. untracked (fwd_compute_target ?tf (params s (ensemble ?tf)) ?x (Some a)
                                   (Some ''min''))"
  let ?tq = "fwd_compute_expected_q ?tf (params s (ensemble ?tf)) ?x None None"
  let ?lq = "fwd_compute_expected_q ?qf (params s (ensemble ?qf)) ?x None None"
  have d: "fst (dqn_compute_target I b s) = map_option ?ev (argmax_dim1 ?tq)"
    by (simp add: dqn_compute_target_def no_grad_def compute_expected_q_def
        compute_target_def tracked_by_def untracked_def Let_def split: option.splits)
  have dd: "fst (double_dqn_compute_target I b s) = map_option ?ev (argmax_dim1 ?lq)"
    by (simp add: double_dqn_compute_target_def dqn_inner_predict_best_action_def no_grad_def
        compute_expected_q_def compute_target_def tracked_by_def untracked_def Let_def
        split: option.splits)
  have t: "(case map_option ?ev (argmax_dim1 ?tq) of
          None \<Rightarrow> (\<exists>i<length ?tq. ?tq ! i = [])
        | Some r \<Rightarrow>
            (\<exists>acts. r = ?ev acts \<and> length acts = length ?tq \<and>
               (\<forall>i<length ?tq. acts ! i < length (?tq ! i) \<and>
                  (\<forall>j<length (?tq ! i). ?tq ! i ! j \<le> ?tq ! i ! (acts ! i)) \<and>
                  (\<forall>j<acts ! i. ?tq ! i ! j < ?tq ! i ! (acts ! i)))))"
    using argmax_dim1_characterised[of ?tq] by (cases "argmax_dim1 ?tq") auto
  have l: "(case map_option ?ev (argmax_dim1 ?lq) of
          None \<Rightarrow> (\<exists>i<length ?lq. ?lq ! i = [])
        | Some r \<Rightarrow>
            (\<exists>acts. r = ?ev acts \<and> length acts = length ?lq \<and>
               (\<forall>i<length ?lq. acts ! i < length (?lq ! i) \<and>
                  (\<forall>j<length (?lq ! i). ?lq ! i ! j \<le> ?lq ! i ! (acts ! i)) \<and>
                  (\<forall>j<acts ! i. ?lq ! i ! j < ?lq ! i ! (acts ! i)))))"
    using argmax_dim1_characterised[of ?lq] by (cases "argmax_dim1 ?lq") auto
  show ?thesis
    unfolding Let_def d dd using t l by blast
qed

text \<open>The two variants are told apart on the example: the target ensemble prefers
  action 0 and the live ensemble action 1, so the targets are the target ensemble's values
  at different actions.\<close>

theorem dqn_and_double_dqn_target_witness:
  "fst (dqn_compute_target example_dqn example_batch example_store)
     = Some (untracked (T2 [[5]]))
   \<and> fst (double_dqn_compute_target example_dqn example_batch example_store)
     = Some (untracked (T2 [[1]]))"
proof -
  note th = dqn_and_double_dqn_target [of example_dqn example_batch example_store, unfolded Let_def]
  from th have a: "fst (dqn_compute_target example_dqn example_batch example_store) =
      map_option (\<lambda>a. untracked (fwd_compute_target (targ_q_func_forwarder example_dqn)
            (params example_store (ensemble (targ_q_func_forwarder example_dqn)))
            (next_observations example_batch) (Some a) (Some ''min'')))
        (argmax_dim1 (fwd_compute_expected_q (targ_q_func_forwarder example_dqn)
            (params example_store (ensemble (targ_q_func_forwarder example_dqn)))
            (next_observations example_batch) None None))"
    and b: "fst (double_dqn_compute_target example_dqn example_batch example_store) =
      map_option (\<lambda>a. untracked (fwd_compute_target (targ_q_func_forwarder example_dqn)
            (params example_store (ensemble (targ_q_func_forwarder example_dqn)))
            (next_observations example_batch) (Some a) (Some ''min'')))
        (argmax_dim1 (fwd_compute_expected_q (q_func_forwarder example_dqn)
            (params example_store (ensemble (q_func_forwarder example_dqn)))
            (next_observations example_batch) None None))"
    by blast+
  show ?thesis
    unfolding a b
    by (simp add: argmax_dim1_def argmax_row_def untracked_def example_dqn_def
        example_forwarder_def example_batch_def example_store_def)
qed

section \<open>Hard synchronisation of the target ensemble\<close>

text \<open>
  C2. For \<^verbatim>\<open>DQNImpl\<close> and \<^verbatim>\<open>DiscreteSACImpl\<close>: in the store the constructor leaves, the
  parameters of the target ensemble equal the parameters of the live ensemble; and from
  any store \<open>s'\<close> whatever (however far the live parameters have moved),
  \<^verbatim>\<open>update_target()\<close> leads to a store where the target parameters equal the live ones,
  which are the live parameters of \<open>s'\<close>.
\<close>

theorem target_equals_live_after_sync:
  "params (snd (dqn_init n ms qf tqf g ag s)) (targ_q_funcs ms) =
     params (snd (dqn_init n ms qf tqf g ag s)) (q_funcs ms)
   \<and> params (dqn_update_target I s') (targ_q_funcs (modules I)) =
       params (dqn_update_target I s') (q_funcs (modules I))
   \<and> params (dqn_update_target I s') (q_funcs (modules I)) = params s' (q_funcs (modules I))
   \<and> params (snd (discrete_sac_init n' ms' qf' tqf' g' ag' s)) (targ_q_funcs ms') =
       params (snd (discrete_sac_init n' ms' qf' tqf' g' ag' s)) (q_funcs ms')
   \<and> params (discrete_sac_update_target J s') (targ_q_funcs (modules J)) =
       params (discrete_sac_update_target J s') (q_funcs (modules J))
   \<and> params (discrete_sac_update_target J s') (q_funcs (modules J)) =
       params s' (q_funcs (modules J))"
  by (simp add: dqn_init_def discrete_sac_init_def dqn_update_target_def
      discrete_sac_update_target_def hard_sync_def)

text \<open>On the example an update moves the live parameters away from the target's, and
  \<^verbatim>\<open>update_target()\<close> brings the target to them.\<close>

lemma sync_after_drift_on_example:
  "params (snd (dqn_update example_dqn example_batch2 example_store)) 1 = [9/10, 19/10]
   \<and> params (snd (dqn_update example_dqn example_batch2 example_store)) 2 = [5, 1]
   \<and> params (dqn_update_target example_dqn
               (snd (dqn_update example_dqn example_batch2 example_store))) 2 = [9/10, 19/10]"
  by (simp add: dqn_update_def update_with_def train_api_def dqn_compute_target_def
      dqn_compute_loss_def compute_error_def dqn_update_target_def hard_sync_def
      no_grad_def compute_expected_q_def compute_target_def tracked_by_def Let_def
      argmax_dim1_def argmax_row_def zero_grad_def backward_def step_def accumulate_def
      tbop_def bop3_def bop2_def bop1_def bop0_def bcast_def of_cube_def long_def
      example_dqn_def example_forwarder_def example_batch2_def example_store_def
      example_optimizer_def example_autograd_def)

section \<open>Target computations read and do not write\<close>

lemma dqn_compute_target_store: "snd (dqn_compute_target I b s) = s"
  by (simp add: dqn_compute_target_def no_grad_def Let_def split: option.splits)

lemma double_dqn_compute_target_store: "snd (double_dqn_compute_target I b s) = s"
  by (simp add: double_dqn_compute_target_def no_grad_def Let_def split: option.splits)

lemma discrete_sac_compute_target_store: "snd (discrete_sac_compute_target I b s) = s"
  by (simp add: discrete_sac_compute_target_def no_grad_def Let_def split: option.splits)

lemma sac_compute_target_store:
  "params (snd (sac_compute_target build I b s)) = params s
   \<and> grads (snd (sac_compute_target build I b s)) = grads s
   \<and> opt_state (snd (sac_compute_target build I b s)) = opt_state s
   \<and> training (snd (sac_compute_target build I b s)) = training s
   \<and> grad_enabled (snd (sac_compute_target build I b s)) = grad_enabled s"
  by (simp add: sac_compute_target_def no_grad_def Let_def split: option.splits prod.splits)

lemma dqn_compute_target_untracked:
  "(case fst (dqn_compute_target I b s) of None \<Rightarrow> True | Some r \<Rightarrow> leaves r = {})"
  by (simp add: dqn_compute_target_def no_grad_def Let_def compute_target_def tracked_by_def
      split: option.splits)

lemma double_dqn_compute_target_untracked:
  "(case fst (double_dqn_compute_target I b s) of None \<Rightarrow> True | Some r \<Rightarrow> leaves r = {})"
  by (simp add: double_dqn_compute_target_def no_grad_def Let_def compute_target_def
      tracked_by_def split: option.splits)

lemma discrete_sac_compute_target_untracked:
  "(case fst (discrete_sac_compute_target I b s) of None \<Rightarrow> True | Some r \<Rightarrow> leaves r = {})"
  by (auto simp add: discrete_sac_compute_target_def no_grad_def Let_def compute_target_def
      call_policy_def call_parameter_def tracked_by_def
      split: option.splits prod.splits Option.bind_splits if_splits)

lemma sac_compute_target_untracked:
  "(case fst (sac_compute_target build I b s) of None \<Rightarrow> True | Some r \<Rightarrow> leaves r = {})"
  by (auto simp add: sac_compute_target_def no_grad_def Let_def compute_target_def
      call_policy_def call_parameter_def tracked_by_def
      split: option.splits prod.splits Option.bind_splits)

text \<open>
  C9. For every mini-batch and every store, each \<^verbatim>\<open>compute_target\<close> (of \<^verbatim>\<open>DQNImpl\<close>,
  \<^verbatim>\<open>DoubleDQNImpl\<close>, \<^verbatim>\<open>DiscreteSACImpl\<close> and \<^verbatim>\<open>SACImpl\<close>) returns a value that no
  parameter is tracked through, and leaves the store as it found it: parameters,
  gradients, optimizer states, training flags and the gradient-tracking flag. The three
  discrete ones leave the whole store unchanged; the one of \<^verbatim>\<open>SACImpl\<close> draws a sample, so
  only the state of the random generator may differ.
\<close>

theorem compute_target_is_a_pure_read:
  "snd (dqn_compute_target I b s) = s
   \<and> (case fst (dqn_compute_target I b s) of None \<Rightarrow> True | Some r \<Rightarrow> leaves r = {})
   \<and> snd (double_dqn_compute_target I b s) = s
   \<and> (case fst (double_dqn_compute_target I b s) of None \<Rightarrow> True | Some r \<Rightarrow> leaves r = {})
   \<and> snd (discrete_sac_compute_target J b s) = s
   \<and> (case fst (discrete_sac_compute_target J b s) of None \<Rightarrow> True
       | Some r \<Rightarrow> leaves r = {})
   \<and> params (snd (sac_compute_target build K b s)) = params s
   \<and> grads (snd (sac_compute_target build K b s)) = grads s
   \<and> opt_state (snd (sac_compute_target build K b s)) = opt_state s
   \<and> training (snd (sac_compute_target build K b s)) = training s
   \<and> grad_enabled (snd (sac_compute_target build K b s)) = grad_enabled s
   \<and> (case fst (sac_compute_target build K b s) of None \<Rightarrow> True | Some r \<Rightarrow> leaves r = {})"
  using sac_compute_target_store [of build K b s]
    dqn_compute_target_store [of I b s] double_dqn_compute_target_store [of I b s]
    discrete_sac_compute_target_store [of J b s]
    dqn_compute_target_untracked [of I b s] double_dqn_compute_target_untracked [of I b s]
    discrete_sac_compute_target_untracked [of J b s]
    sac_compute_target_untracked [of build K b s]
  by simp

section \<open>The actor update of discrete SAC\<close>

lemma discrete_sac_compute_actor_loss_store:
  "snd (discrete_sac_compute_actor_loss I b s) = s"
  by (simp add: discrete_sac_compute_actor_loss_def no_grad_def Let_def split: prod.splits)

lemma discrete_sac_compute_actor_loss_leaves:
  "(case fst (discrete_sac_compute_actor_loss I b s) of
      None \<Rightarrow> True
    | Some l \<Rightarrow> leaves l = (if grad_enabled s
                            then {p_addr (policy (modules I)), log_temp (modules I)} else {}))"
  by (auto simp add: discrete_sac_compute_actor_loss_def no_grad_def Let_def
      compute_expected_q_def call_policy_def call_parameter_def tracked_by_def
      split: option.splits prod.splits Option.bind_splits)

lemma step_params_frame: "a \<notin> set (owned opt) \<Longrightarrow> params (step opt s) a = params s a"
  by (simp add: step_def)

lemma step_opt_state_frame: "a \<noteq> opt_addr opt \<Longrightarrow> opt_state (step opt s) a = opt_state s a"
  by (simp add: step_def)

lemma backward_params: "backward G l s = Some s' \<Longrightarrow> params s' = params s \<and> opt_state s' = opt_state s"
  by (auto simp: backward_def split: if_splits)

lemma zero_grad_params: "params (zero_grad opt s) = params s \<and> opt_state (zero_grad opt s) = opt_state s"
  by (simp add: zero_grad_def)

lemma discrete_sac_update_actor_params:
  assumes "a \<notin> set (owned (actor_optim (modules I)))"
  shows "params (snd (discrete_sac_update_actor I b s)) a = params s a"
proof -
  let ?s0 = "s\<lparr>training := (training s)(q_funcs (modules I) := False)\<rparr>"
  let ?s1 = "zero_grad (actor_optim (modules I)) ?s0"
  have p1: "params ?s1 = params s" by (simp add: zero_grad_def)
  obtain l where l: "discrete_sac_compute_actor_loss I b ?s1 = (l, ?s1)"
    using discrete_sac_compute_actor_loss_store[of I b ?s1] by (metis prod.collapse)
  show ?thesis
  proof (cases l)
    case None
    with l p1 show ?thesis by (simp add: discrete_sac_update_actor_def train_api_def Let_def)
  next
    case (Some loss)
    show ?thesis
    proof (cases "backward (autograd I ''actor_loss'' ?s1 b) loss ?s1")
      case None
      with l Some p1 show ?thesis
        by (simp add: discrete_sac_update_actor_def train_api_def Let_def)
    next
      case (Some s3)
      from backward_params[OF Some] p1 have "params s3 = params s" by simp
      with step_params_frame[OF assms, of s3] l \<open>l = Some loss\<close> Some show ?thesis
        by (simp add: discrete_sac_update_actor_def train_api_def Let_def)
    qed
  qed
qed

lemma discrete_sac_update_actor_opt_state:
  assumes "a \<noteq> opt_addr (actor_optim (modules I))"
  shows "opt_state (snd (discrete_sac_update_actor I b s)) a = opt_state s a"
proof -
  let ?s0 = "s\<lparr>training := (training s)(q_funcs (modules I) := False)\<rparr>"
  let ?s1 = "zero_grad (actor_optim (modules I)) ?s0"
  have p1: "opt_state ?s1 = opt_state s" by (simp add: zero_grad_def)
  obtain l where l: "discrete_sac_compute_actor_loss I b ?s1 = (l, ?s1)"
    using discrete_sac_compute_actor_loss_store[of I b ?s1] by (metis prod.collapse)
  show ?thesis
  proof (cases l)
    case None
    with l p1 show ?thesis by (simp add: discrete_sac_update_actor_def train_api_def Let_def)
  next
    case (Some loss)
    show ?thesis
    proof (cases "backward (autograd I ''actor_loss'' ?s1 b) loss ?s1")
      case None
      with l Some p1 show ?thesis
        by (simp add: discrete_sac_update_actor_def train_api_def Let_def)
    next
      case (Some s3)
      from backward_params[OF Some] p1 have "opt_state s3 = opt_state s" by simp
      with step_opt_state_frame[OF assms, of s3] l \<open>l = Some loss\<close> Some show ?thesis
        by (simp add: discrete_sac_update_actor_def train_api_def Let_def)
    qed
  qed
qed

text \<open>The update did run on the example: it reports a loss and moves the policy's
  parameters.\<close>

lemma discrete_sac_update_actor_example:
  "fst (discrete_sac_update_actor example_discrete_sac example_batch example_store)
     = Some [(''actor_loss'', (ln (1/2) - 1) / 2 + (ln (1/2) - 2) / 2)]
   \<and> params (snd (discrete_sac_update_actor example_discrete_sac example_batch example_store)) 0
       = [9/10, 19/10]"
  by (simp add: discrete_sac_update_actor_def discrete_sac_compute_actor_loss_def
      example_discrete_sac_def example_optimizer_def example_policy_def example_store_def
      example_batch_def example_forwarder_def example_autograd_def
      texp_def bop2_def bop1_def bop0_def bcast_def tmean_def
      compute_expected_q_def call_policy_def call_parameter_def tracked_by_def no_grad_def
      train_api_def Let_def zero_grad_def backward_def step_def accumulate_def)

text \<open>
  C10. For every mini-batch and store, when \<^verbatim>\<open>actor_optim\<close> was built over no parameters
  but the policy's, and the Q-functions, the target Q-functions and the temperature are
  other parameter groups than the policy: \<^verbatim>\<open>DiscreteSACImpl.update_actor\<close> leaves the
  parameters of \<^verbatim>\<open>q_funcs\<close>, \<^verbatim>\<open>targ_q_funcs\<close> and \<^verbatim>\<open>log_temp\<close> as they were, steps no
  optimizer but \<^verbatim>\<open>actor_optim\<close>, and the actor loss is tracked through the policy and the
  temperature only: the Q-values that enter it carry no gradient.
\<close>

theorem discrete_sac_update_actor_frame:
  assumes "set (owned (actor_optim (modules I))) \<subseteq> {p_addr (policy (modules I))}"
    and "q_funcs (modules I) \<noteq> p_addr (policy (modules I))"
    and "targ_q_funcs (modules I) \<noteq> p_addr (policy (modules I))"
    and "log_temp (modules I) \<noteq> p_addr (policy (modules I))"
  shows "params (snd (discrete_sac_update_actor I b s)) (q_funcs (modules I)) =
           params s (q_funcs (modules I))
       \<and> params (snd (discrete_sac_update_actor I b s)) (targ_q_funcs (modules I)) =
           params s (targ_q_funcs (modules I))
       \<and> params (snd (discrete_sac_update_actor I b s)) (log_temp (modules I)) =
           params s (log_temp (modules I))
       \<and> (\<forall>a. a \<noteq> opt_addr (actor_optim (modules I)) \<longrightarrow>
              opt_state (snd (discrete_sac_update_actor I b s)) a = opt_state s a)
       \<and> (case fst (discrete_sac_compute_actor_loss I b s) of
             None \<Rightarrow> True
           | Some l \<Rightarrow> leaves l \<subseteq> {p_addr (policy (modules I)), log_temp (modules I)})"
proof -
  have q: "q_funcs (modules I) \<notin> set (owned (actor_optim (modules I)))"
    and t: "targ_q_funcs (modules I) \<notin> set (owned (actor_optim (modules I)))"
    and l: "log_temp (modules I) \<notin> set (owned (actor_optim (modules I)))"
    using assms by auto
  have lv: "(case fst (discrete_sac_compute_actor_loss I b s) of
             None \<Rightarrow> True
           | Some l \<Rightarrow> leaves l \<subseteq> {p_addr (policy (modules I)), log_temp (modules I)})"
    using discrete_sac_compute_actor_loss_leaves[where I=I and b=b and s=s] by (simp split: option.splits)
  show ?thesis
    using discrete_sac_update_actor_params[OF q] discrete_sac_update_actor_params[OF t]
      discrete_sac_update_actor_params[OF l] discrete_sac_update_actor_opt_state[where I=I and b=b and s=s] lv
    by simp
qed

theorem discrete_sac_update_actor_frame_witness:
  "params (snd (discrete_sac_update_actor example_discrete_sac example_batch example_store)) 1
     = [1, 2]
   \<and> params (snd (discrete_sac_update_actor example_discrete_sac example_batch example_store)) 2
       = [5, 1]
   \<and> params (snd (discrete_sac_update_actor example_discrete_sac example_batch example_store)) 3
       = [0]
   \<and> opt_state (snd (discrete_sac_update_actor example_discrete_sac example_batch
                         example_store)) 11 = []"
  using discrete_sac_update_actor_frame [of example_discrete_sac example_batch example_store]
  by (simp add: example_discrete_sac_def example_optimizer_def example_policy_def
      example_store_def)

section \<open>The actor loss and the temperature update of SAC\<close>

text \<open>
  C6. For every observation batch: when the squashed Gaussian distribution that the
  policy gives at the observations draws \<open>(action, log_prob)\<close>, the log-probabilities and
  the live forwarder's expected Q at the observations and the drawn action under the
  reduction "min" have the shape (B, 1) with B > 0, and the temperature parameter holds
  \<open>lt\<close>, then \<^verbatim>\<open>SACImpl.compute_actor_loss\<close> returns the mean over the batch of
  \<open>exp lt * log_prob - Q\<close>.
\<close>

theorem sac_actor_loss_value:
  assumes smp: "sample_with_log_prob
              (build (p_forward (policy (modules I)) (params s (p_addr (policy (modules I))))
                        (observations b)))
              (rng s) = ((action, log_prob), r')"
    and lt: "params s (log_temp (modules I)) = [lt]"
    and lp: "has_shape2 log_prob B 1"
    and q: "has_shape2 (fwd_compute_expected_q (q_func_forwarder I)
              (params s (ensemble (q_func_forwarder I))) (observations b) (Some action)
              (Some ''min'')) B 1"
    and B: "0 < B"
  shows "map_option val (fst (sac_compute_actor_loss build I b s)) =
         Some ((\<Sum>i<B. exp lt * log_prob ! i ! 0
                        - fwd_compute_expected_q (q_func_forwarder I)
                            (params s (ensemble (q_func_forwarder I))) (observations b)
                            (Some action) (Some ''min'') ! i ! 0) / real B)"
proof -
  let ?q = "fwd_compute_expected_q (q_func_forwarder I)
              (params s (ensemble (q_func_forwarder I))) (observations b) (Some action)
              (Some ''min'')"
  let ?e = "map (\<lambda>i. [exp lt * log_prob ! i ! 0]) [0..<B]"
  let ?d = "map (\<lambda>i. [?e ! i ! 0 - ?q ! i ! 0]) [0..<B]"
  have e1: "bop2 (*) [[exp lt]] log_prob = Some ?e"
    by (rule bop2_scalar_column[OF lp])
  have e2: "bop2 (-) ?e ?q = Some ?d"
    by (rule bop2_columns[OF has_shape2_column q])
  have "tmean (T2 ?d) = Some ((\<Sum>i<B. ?e ! i ! 0 - ?q ! i ! 0) / real B)"
    by (rule tmean_column[OF B])
  also have "(\<Sum>i<B. ?e ! i ! 0 - ?q ! i ! 0) = (\<Sum>i<B. exp lt * log_prob ! i ! 0 - ?q ! i ! 0)"
    by (rule sum.cong) simp_all
  finally have e3: "tmean (T2 ?d) =
      Some ((\<Sum>i<B. exp lt * log_prob ! i ! 0 - ?q ! i ! 0) / real B)" .
  show ?thesis
    by (simp add: sac_compute_actor_loss_def call_policy_def call_parameter_def
        compute_expected_q_def smp lt texp_def Let_def e1 e2 e3)
qed

theorem sac_actor_loss_value_witness:
  "map_option val
     (fst (sac_compute_actor_loss example_build example_sac example_batch2 example_store))
   = Some (- 4)"
  using sac_actor_loss_value [of example_build example_sac example_store example_batch2
      "[[1], [2]]" "[[-1], [-2]]" 1 0 2]
  by (simp add: example_sac_def example_normal_policy_def example_build_def
      example_continuous_forwarder_def example_batch2_def example_store_def
      has_shape2_def lessThan_Suc numeral_2_eq_2)

text \<open>
  C7. For every mini-batch, with gradient tracking on, log-probabilities \<open>log_prob\<close> of
  shape (B, 1) with B > 0 drawn at the observations, and the temperature parameter
  holding \<open>lt\<close>: \<^verbatim>\<open>SACImpl.update_temp\<close> returns the metrics \<^verbatim>\<open>temp_loss\<close>, which is
  minus the mean of \<open>exp lt * (log_prob - action_size)\<close>, and \<^verbatim>\<open>temp\<close>, which is the
  exponential of the temperature parameter after the optimizer step and is not negative
  (the call fails if the step left the parameter empty). The log-probability is drawn
  without gradient tracking: the call writes no gradient to a parameter group other than
  the temperature and those of \<^verbatim>\<open>temp_optim\<close>.
\<close>

theorem sac_update_temp_result:
  assumes smp: "sample_with_log_prob
              (build (p_forward (policy (modules I)) (params s (p_addr (policy (modules I))))
                        (observations b)))
              (rng s) = ((action, log_prob), r')"
    and lt: "params s (log_temp (modules I)) = [lt]"
    and lp: "has_shape2 log_prob B 1"
    and B: "0 < B"
    and ge: "grad_enabled s"
  shows "let r = sac_update_temp build I b s;
             L = - ((\<Sum>i<B. exp lt * (log_prob ! i ! 0 - real (action_size I))) / real B)
         in (case params (snd r) (log_temp (modules I)) of
               [] \<Rightarrow> fst r = None
             | lt' # rest \<Rightarrow>
                 fst r = Some [(''temp_loss'', L), (''temp'', exp lt')] \<and> 0 \<le> exp lt')
          \<and> (\<forall>a. a \<noteq> log_temp (modules I) \<and> a \<notin> set (owned (temp_optim (modules I)))
                  \<longrightarrow> grads (snd r) a = grads s a)"
proof -
  let ?tt = "map (map (\<lambda>x. x - real (action_size I))) log_prob"
  let ?P = "map (\<lambda>i. [exp lt * (?tt ! i ! 0)]) [0..<B]"
  have tt: "has_shape2 ?tt B 1" by (rule has_shape2_map_map[OF lp])
  have nth: "\<And>i. i < B \<Longrightarrow> ?tt ! i ! 0 = log_prob ! i ! 0 - real (action_size I)"
    using lp by (auto simp: has_shape2_def list_all_length)
  have e1: "bop2 (*) [[exp lt]] ?tt = Some ?P"
    by (rule bop2_scalar_column[OF tt])
  have "tmean (T2 ?P) = Some ((\<Sum>i<B. exp lt * (?tt ! i ! 0)) / real B)"
    by (rule tmean_column[OF B])
  also have "(\<Sum>i<B. exp lt * (?tt ! i ! 0)) =
             (\<Sum>i<B. exp lt * (log_prob ! i ! 0 - real (action_size I)))"
    by (rule sum.cong) (simp_all add: nth)
  finally have e2: "tmean (T2 ?P) =
      Some ((\<Sum>i<B. exp lt * (log_prob ! i ! 0 - real (action_size I))) / real B)" .
  show ?thesis
    using ge
    by (auto simp add: sac_update_temp_def train_api_def no_grad_def call_policy_def
        call_parameter_def smp lt e1 e2 texp_def Let_def tracked_by_def backward_def
        step_def zero_grad_def split: list.splits)
qed

theorem sac_update_temp_result_witness:
  "fst (sac_update_temp example_build example_sac example_batch2 example_store)
     = Some [(''temp_loss'', 5 / 2), (''temp'', exp (- 1 / 10))]
   \<and> grads (snd (sac_update_temp example_build example_sac example_batch2 example_store)) 0
       = None"
proof -
  have smp: "sample_with_log_prob
      (example_build (p_forward (policy (modules example_sac))
         (params example_store (p_addr (policy (modules example_sac))))
         (observations example_batch2)))
      (rng example_store) = (([[1], [2]], [[-1], [-2]]), 1)"
    by (simp add: example_sac_def example_normal_policy_def example_build_def
        example_batch2_def example_store_def)
  have lt: "params example_store (log_temp (modules example_sac)) = [0]"
    by (simp add: example_sac_def example_store_def)
  have lp: "has_shape2 [[-1], [-2 :: real]] (Suc (Suc 0)) 1"
    by (simp add: has_shape2_def)
  have ge: "grad_enabled example_store" by (simp add: example_store_def)
  have B: "0 < Suc (Suc 0)" by simp
  note th = sac_update_temp_result [of example_build example_sac example_store example_batch2
      "[[1], [2]]" "[[-1], [-2]]" 1 0 "Suc (Suc 0)", OF smp lt lp B ge, unfolded Let_def]
  have p: "params (snd (sac_update_temp example_build example_sac example_batch2
                          example_store)) (log_temp (modules example_sac)) = [- 1 / 10]"
    by (simp add: sac_update_temp_def train_api_def no_grad_def call_policy_def
        call_parameter_def zero_grad_def step_def backward_def accumulate_def tracked_by_def
        texp_def bop2_def bop1_def bop0_def bcast_def tmean_def
        example_sac_def example_normal_policy_def example_build_def
        example_batch2_def example_store_def example_optimizer_def example_autograd_def
        Let_def)
  from th p show ?thesis
    by (simp add: example_sac_def example_store_def example_optimizer_def)
qed

section \<open>The critic losses\<close>

text \<open>The temporal-difference target of \<open>compute_error\<close>, entry by entry.\<close>

lemma td_target_entries:
  assumes r: "has_shape2 rews B 1" and d: "has_shape2 terms B 1" and g: "has_shape2 gam B 1"
    and q: "has_shape2 q B N"
  shows "Option.bind (tbop (*) (T2 gam) (T2 q))
           (\<lambda>gt. Option.bind (tbop (*) gt (T2 (map (map (\<lambda>d. 1 - d)) terms)))
              (\<lambda>gtd. Option.bind (tbop (+) (T2 rews) gtd) k)) =
         k (T2 (map (\<lambda>i. map (\<lambda>j. rews ! i ! 0 + gam ! i ! 0 * q ! i ! j * (1 - terms ! i ! 0))
                                [0..<N]) [0..<B]))"
proof -
  let ?gt = "map (\<lambda>i. map (\<lambda>j. gam ! i ! 0 * q ! i ! j) [0..<N]) [0..<B]"
  let ?nd = "map (map (\<lambda>d. 1 - d)) terms"
  let ?gtd = "map (\<lambda>i. map (\<lambda>j. ?gt ! i ! j * ?nd ! i ! 0) [0..<N]) [0..<B]"
  let ?y = "map (\<lambda>i. map (\<lambda>j. rews ! i ! 0 + ?gtd ! i ! j) [0..<N]) [0..<B]"
  have nd: "has_shape2 ?nd B 1" by (rule has_shape2_map_map[OF d])
  have e1: "bop2 (*) gam q = Some ?gt" by (rule bop2_col_mat[OF g q])
  have e2: "bop2 (*) ?gt ?nd = Some ?gtd" by (rule bop2_mat_col[OF has_shape2_table nd])
  have e3: "bop2 (+) rews ?gtd = Some ?y" by (rule bop2_col_mat[OF r has_shape2_table])
  have "?y = map (\<lambda>i. map (\<lambda>j. rews ! i ! 0 + gam ! i ! 0 * q ! i ! j * (1 - terms ! i ! 0))
                                [0..<N]) [0..<B]"
    by (rule table_cong) (simp add: map_map_nth[OF d])
  with e1 e2 e3 show ?thesis by (simp add: tbop_T2)
qed

lemma compute_error_value:
  assumes r: "has_shape2 rews B 1" and d: "has_shape2 terms B 1" and g: "has_shape2 ivs B 1"
    and t: "val target = T2 q" and q: "has_shape2 q B N"
  shows "compute_error F s obs acts rews target terms (map (map (\<lambda>n. c ^ n)) ivs) =
         Some \<lparr>val = fwd_td_error F (params s (ensemble F)) obs acts
                 (T2 (map (\<lambda>i. map (\<lambda>j. rews ! i ! 0 + c ^ (ivs ! i ! 0) * q ! i ! j
                                          * (1 - terms ! i ! 0)) [0..<N]) [0..<B])),
               leaves = tracked_by s (ensemble F) \<union> leaves target\<rparr>"
proof -
  let ?gam = "map (map (\<lambda>n. c ^ n)) ivs"
  have gs: "has_shape2 ?gam B 1" by (rule has_shape2_map_map[OF g])
  have eq: "map (\<lambda>i. map (\<lambda>j. rews ! i ! 0 + ?gam ! i ! 0 * q ! i ! j * (1 - terms ! i ! 0))
                       [0..<N]) [0..<B] =
        map (\<lambda>i. map (\<lambda>j. rews ! i ! 0 + c ^ (ivs ! i ! 0) * q ! i ! j * (1 - terms ! i ! 0))
                       [0..<N]) [0..<B]"
    by (rule table_cong) (simp add: map_map_nth[OF g])
  show ?thesis
    unfolding compute_error_def t td_target_entries[OF r d gs q] eq by simp
qed

text \<open>
  C5. For every mini-batch whose rewards, terminals and intervals have the shape (B, 1),
  and every target of shape (B, N): \<^verbatim>\<open>DQNImpl.compute_loss\<close> and
  \<^verbatim>\<open>DiscreteSACImpl.compute_critic_loss\<close> hand the live forwarder's \<^verbatim>\<open>compute_error\<close> the
  discount factor raised, entry by entry, to the batch's intervals; with
  \<^verbatim>\<open>compute_error\<close> as the spec describes it, the loss is the forwarder's error against
  the temporal-difference target
  \<open>reward + gamma ^ interval * target * (1 - terminal)\<close>.
\<close>

theorem critic_loss_discounts_by_interval:
  assumes "has_shape2 (rewards b) B 1" and "has_shape2 (terminals b) B 1"
    and "has_shape2 (intervals b) B 1" and "val q_tpn = T2 q" and "has_shape2 q B N"
  shows "dqn_compute_loss I b q_tpn s =
           compute_error (q_func_forwarder I) s (observations b) (long (actions b)) (rewards b)
             q_tpn (terminals b) (map (map (\<lambda>n. gamma I ^ n)) (intervals b))
       \<and> discrete_sac_compute_critic_loss J b q_tpn s =
           compute_error (q_func_forwarder J) s (observations b) (long (actions b)) (rewards b)
             q_tpn (terminals b) (map (map (\<lambda>n. gamma J ^ n)) (intervals b))
       \<and> dqn_compute_loss I b q_tpn s =
           Some \<lparr>val = fwd_td_error (q_func_forwarder I)
                   (params s (ensemble (q_func_forwarder I))) (observations b)
                   (long (actions b))
                   (T2 (map (\<lambda>i. map (\<lambda>j. rewards b ! i ! 0
                                            + gamma I ^ (intervals b ! i ! 0) * q ! i ! j
                                              * (1 - terminals b ! i ! 0)) [0..<N]) [0..<B])),
                 leaves = tracked_by s (ensemble (q_func_forwarder I)) \<union> leaves q_tpn\<rparr>
       \<and> discrete_sac_compute_critic_loss J b q_tpn s =
           Some \<lparr>val = fwd_td_error (q_func_forwarder J)
                   (params s (ensemble (q_func_forwarder J))) (observations b)
                   (long (actions b))
                   (T2 (map (\<lambda>i. map (\<lambda>j. rewards b ! i ! 0
                                            + gamma J ^ (intervals b ! i ! 0) * q ! i ! j
                                              * (1 - terminals b ! i ! 0)) [0..<N]) [0..<B])),
                 leaves = tracked_by s (ensemble (q_func_forwarder J)) \<union> leaves q_tpn\<rparr>"
  using compute_error_value[OF assms, of "q_func_forwarder I" s "observations b"
      "long (actions b)" "gamma I"]
    compute_error_value[OF assms, of "q_func_forwarder J" s "observations b"
      "long (actions b)" "gamma J"]
  by (simp add: dqn_compute_loss_def discrete_sac_compute_critic_loss_def)

theorem critic_loss_discounts_by_interval_witness:
  "dqn_compute_loss example_dqn example_batch2 (untracked (T2 [[8], [6]])) example_store
     = Some \<lparr>val = 25, leaves = {1}\<rparr>
   \<and> discrete_sac_compute_critic_loss example_discrete_sac example_batch2
        (untracked (T2 [[8], [6]])) example_store = Some \<lparr>val = 25, leaves = {1}\<rparr>"
proof -
  have h: "has_shape2 (rewards example_batch2) (Suc (Suc 0)) 1"
    "has_shape2 (terminals example_batch2) (Suc (Suc 0)) 1"
    "has_shape2 (intervals example_batch2) (Suc (Suc 0)) 1"
    "val (untracked (T2 [[8], [6]])) = T2 [[8], [6]]"
    "has_shape2 [[8::real], [6]] (Suc (Suc 0)) (Suc 0)"
    by (simp_all add: example_batch2_def has_shape2_def untracked_def)
  from critic_loss_discounts_by_interval [OF h, of example_dqn example_store example_discrete_sac]
  have a: "dqn_compute_loss example_dqn example_batch2 (untracked (T2 [[8], [6]])) example_store =
           Some \<lparr>val = fwd_td_error (q_func_forwarder example_dqn)
                   (params example_store (ensemble (q_func_forwarder example_dqn)))
                   (observations example_batch2) (long (actions example_batch2))
                   (T2 (map (\<lambda>i. map (\<lambda>j. rewards example_batch2 ! i ! 0
                        + gamma example_dqn ^ (intervals example_batch2 ! i ! 0)
                          * [[8], [6]] ! i ! j * (1 - terminals example_batch2 ! i ! 0))
                          [0..<Suc 0]) [0..<Suc (Suc 0)])),
                 leaves = tracked_by example_store (ensemble (q_func_forwarder example_dqn))
                          \<union> leaves (untracked (T2 [[8], [6]]))\<rparr>"
    and b: "discrete_sac_compute_critic_loss example_discrete_sac example_batch2
              (untracked (T2 [[8], [6]])) example_store =
           Some \<lparr>val = fwd_td_error (q_func_forwarder example_discrete_sac)
                   (params example_store (ensemble (q_func_forwarder example_discrete_sac)))
                   (observations example_batch2) (long (actions example_batch2))
                   (T2 (map (\<lambda>i. map (\<lambda>j. rewards example_batch2 ! i ! 0
                        + gamma example_discrete_sac ^ (intervals example_batch2 ! i ! 0)
                          * [[8], [6]] ! i ! j * (1 - terminals example_batch2 ! i ! 0))
                          [0..<Suc 0]) [0..<Suc (Suc 0)])),
                 leaves = tracked_by example_store
                            (ensemble (q_func_forwarder example_discrete_sac))
                          \<union> leaves (untracked (T2 [[8], [6]]))\<rparr>"
    by blast+
  show ?thesis
    unfolding a b
    by (simp add: example_dqn_def example_discrete_sac_def example_batch2_def
        example_store_def example_forwarder_def untracked_def tracked_by_def power2_eq_square)
qed

section \<open>The target of discrete SAC\<close>

text \<open>The weighted sum over actions for a rank-3 target.\<close>

lemma weighted_sum_rank3:
  assumes c: "has_shape3 c B A N" and e: "has_shape2 e B A" and p: "has_shape2 p B A"
    and A: "0 < A"
  shows "Option.bind (tbop (-) (T3 c) (T3 (unsqueeze_last e)))
           (\<lambda>d. Option.bind (tbop (*) (T3 (unsqueeze_last p)) d)
              (\<lambda>w. Option.bind (tsum_dim1 w False) k)) =
         k (T2 (map (\<lambda>i. map (\<lambda>n. \<Sum>a<A. p ! i ! a * (c ! i ! a ! n - e ! i ! a)) [0..<N])
                  [0..<B]))"
proof -
  let ?e3 = "unsqueeze_last e" and ?p3 = "unsqueeze_last p"
  let ?d = "map (\<lambda>i. map (\<lambda>a. map (\<lambda>n. c ! i ! a ! n - ?e3 ! i ! a ! 0) [0..<N]) [0..<A])
              [0..<B]"
  let ?w = "map (\<lambda>i. map (\<lambda>a. map (\<lambda>n. ?p3 ! i ! a ! 0 * ?d ! i ! a ! n) [0..<N]) [0..<A])
              [0..<B]"
  let ?w' = "map (\<lambda>i. map (\<lambda>a. map (\<lambda>n. p ! i ! a * (c ! i ! a ! n - e ! i ! a)) [0..<N])
                         [0..<A]) [0..<B]"
  have e1: "bop3 (-) c ?e3 = Some ?d"
    by (rule bop3_cube_col[OF c has_shape3_unsqueeze[OF e]])
  have e2: "bop3 (*) ?p3 ?d = Some ?w"
    by (rule bop3_col_cube[OF has_shape3_unsqueeze[OF p] has_shape3_table])
  have w: "?w = ?w'"
    by (rule cube_cong) (simp add: unsqueeze_last_nth[OF e] unsqueeze_last_nth[OF p])
  have s: "map sum_rows ?w' =
           map (\<lambda>i. map (\<lambda>n. \<Sum>a<A. p ! i ! a * (c ! i ! a ! n - e ! i ! a)) [0..<N]) [0..<B]"
    by (simp add: sum_rows_table[OF A])
  show ?thesis
    by (simp add: tbop_T3 e1 e2 w s del: map_map)
qed

text \<open>The weighted sum over actions for a rank-2 target.\<close>

lemma weighted_sum_rank2:
  assumes q: "has_shape2 q B A" and e: "has_shape2 e B A" and p: "has_shape2 p B A"
  shows "Option.bind (tbop (-) (T2 q) (T2 e))
           (\<lambda>d. Option.bind (tbop (*) (T2 p) d)
              (\<lambda>w. Option.bind (tsum_dim1 w True) k)) =
         k (T2 (map (\<lambda>i. [(\<Sum>a<A. p ! i ! a * (q ! i ! a - e ! i ! a))]) [0..<B]))"
proof -
  let ?d = "map (\<lambda>i. map (\<lambda>a. q ! i ! a - e ! i ! a) [0..<A]) [0..<B]"
  let ?w = "map (\<lambda>i. map (\<lambda>a. p ! i ! a * ?d ! i ! a) [0..<A]) [0..<B]"
  let ?w' = "map (\<lambda>i. map (\<lambda>a. p ! i ! a * (q ! i ! a - e ! i ! a)) [0..<A]) [0..<B]"
  have e1: "bop2 (-) q e = Some ?d" by (rule bop2_same[OF q e])
  have e2: "bop2 (*) p ?d = Some ?w" by (rule bop2_same[OF p has_shape2_table])
  have w: "?w = ?w'" by (rule table_cong) simp
  have s: "map (\<lambda>r. [sum_list r]) ?w' =
           map (\<lambda>i. [(\<Sum>a<A. p ! i ! a * (q ! i ! a - e ! i ! a))]) [0..<B]"
    by (simp add: interv_sum_list_conv_sum_set_nat atLeast0LessThan comp_def)
  show ?thesis
    by (simp add: tbop_T2 e1 e2 w s del: map_map)
qed

text \<open>
  C3. For every mini-batch at which the policy's probabilities and log-probabilities have
  the shape (B, A) with A > 0, and the temperature parameter holds \<open>lt\<close>:
  when the target forwarder's tensor has the shape (B, A, N), \<^verbatim>\<open>DiscreteSACImpl.compute_target\<close>
  returns the (B, N) tensor of the sums over the actions \<open>a\<close> of
  \<open>prob * (target - exp lt * log_prob)\<close> (entropy and probabilities repeated along the
  last axis, the summed dimension dropped); when it has the shape (B, A), the (B, 1)
  tensor of these sums (the summed dimension kept). The result has rank 2 either way, and
  no gradient is tracked through it.
\<close>

theorem discrete_sac_target_value_and_rank:
  assumes P: "has_shape2 (probs (p_forward (policy (modules I))
                 (params s (p_addr (policy (modules I)))) (next_observations b))) B A"
    and L: "has_shape2 (logits (p_forward (policy (modules I))
                 (params s (p_addr (policy (modules I)))) (next_observations b))) B A"
    and A: "0 < A"
    and lt: "params s (log_temp (modules I)) = [lt]"
  shows "let dist = p_forward (policy (modules I)) (params s (p_addr (policy (modules I))))
                      (next_observations b);
             target = fwd_compute_target (targ_q_func_forwarder I)
                        (params s (ensemble (targ_q_func_forwarder I))) (next_observations b)
                        None None
         in (\<forall>c N. target = T3 c \<and> has_shape3 c B A N \<longrightarrow>
               fst (discrete_sac_compute_target I b s) =
                 Some (untracked (T2 (map (\<lambda>i. map (\<lambda>n. \<Sum>a<A. probs dist ! i ! a
                                  * (c ! i ! a ! n - exp lt * logits dist ! i ! a)) [0..<N])
                               [0..<B]))))
          \<and> (\<forall>q. target = T2 q \<and> has_shape2 q B A \<longrightarrow>
               fst (discrete_sac_compute_target I b s) =
                 Some (untracked (T2 (map (\<lambda>i. [(\<Sum>a<A. probs dist ! i ! a
                                  * (q ! i ! a - exp lt * logits dist ! i ! a))]) [0..<B]))))
          \<and> (\<forall>c N. target = T3 c \<and> has_shape3 c B A N \<longrightarrow>
               map_option (tdim \<circ> val) (fst (discrete_sac_compute_target I b s)) = Some 2)
          \<and> (\<forall>q. target = T2 q \<and> has_shape2 q B A \<longrightarrow>
               map_option (tdim \<circ> val) (fst (discrete_sac_compute_target I b s)) = Some 2)"
proof -
  let ?dist = "p_forward (policy (modules I)) (params s (p_addr (policy (modules I))))
                 (next_observations b)"
  let ?target = "fwd_compute_target (targ_q_func_forwarder I)
                   (params s (ensemble (targ_q_func_forwarder I))) (next_observations b)
                   None None"
  let ?e = "map (\<lambda>i. map (\<lambda>a. exp lt * logits ?dist ! i ! a) [0..<A]) [0..<B]"
  have e0: "bop2 (*) [[exp lt]] (logits ?dist) = Some ?e"
    by (rule bop2_scalar_mat[OF L])
  have es: "has_shape2 ?e B A" by (rule has_shape2_table)
  have r3: "fst (discrete_sac_compute_target I b s) =
        Some (untracked (T2 (map (\<lambda>i. map (\<lambda>n. \<Sum>a<A. probs ?dist ! i ! a
                    * (c ! i ! a ! n - exp lt * logits ?dist ! i ! a)) [0..<N]) [0..<B])))"
    if t: "?target = T3 c" and c: "has_shape3 c B A N" for c N
  proof -
    have "map (\<lambda>i. map (\<lambda>n. \<Sum>a<A. probs ?dist ! i ! a * (c ! i ! a ! n - ?e ! i ! a)) [0..<N])
            [0..<B] =
          map (\<lambda>i. map (\<lambda>n. \<Sum>a<A. probs ?dist ! i ! a
                    * (c ! i ! a ! n - exp lt * logits ?dist ! i ! a)) [0..<N]) [0..<B]"
      by (rule table_cong) simp
    with weighted_sum_rank3[OF c es P A] show ?thesis
      by (simp add: discrete_sac_compute_target_def no_grad_def call_policy_def
          call_parameter_def compute_target_def tracked_by_def texp_def lt e0 t Let_def
          untracked_def)
  qed
  have r2: "fst (discrete_sac_compute_target I b s) =
        Some (untracked (T2 (map (\<lambda>i. [(\<Sum>a<A. probs ?dist ! i ! a
                    * (q ! i ! a - exp lt * logits ?dist ! i ! a))]) [0..<B])))"
    if t: "?target = T2 q" and q: "has_shape2 q B A" for q
  proof -
    have "map (\<lambda>i. [(\<Sum>a<A. probs ?dist ! i ! a * (q ! i ! a - ?e ! i ! a))]) [0..<B] =
          map (\<lambda>i. [(\<Sum>a<A. probs ?dist ! i ! a
                    * (q ! i ! a - exp lt * logits ?dist ! i ! a))]) [0..<B]"
      by simp
    with weighted_sum_rank2[OF q es P] show ?thesis
      by (simp add: discrete_sac_compute_target_def no_grad_def call_policy_def
          call_parameter_def compute_target_def tracked_by_def texp_def lt e0 t Let_def
          untracked_def)
  qed
  show ?thesis
    unfolding Let_def
  proof (intro conjI allI impI)
    fix c N assume "?target = T3 c \<and> has_shape3 c B A N"
    then have t: "?target = T3 c" and c: "has_shape3 c B A N" by simp_all
    from r3[OF t c]
    show "fst (discrete_sac_compute_target I b s) =
        Some (untracked (T2 (map (\<lambda>i. map (\<lambda>n. \<Sum>a<A. probs ?dist ! i ! a
                    * (c ! i ! a ! n - exp lt * logits ?dist ! i ! a)) [0..<N]) [0..<B])))" .
    from r3[OF t c]
    show "map_option (tdim \<circ> val) (fst (discrete_sac_compute_target I b s)) = Some 2"
      by (simp add: untracked_def)
  next
    fix q assume "?target = T2 q \<and> has_shape2 q B A"
    then have t: "?target = T2 q" and q: "has_shape2 q B A" by simp_all
    from r2[OF t q]
    show "fst (discrete_sac_compute_target I b s) =
        Some (untracked (T2 (map (\<lambda>i. [(\<Sum>a<A. probs ?dist ! i ! a
                    * (q ! i ! a - exp lt * logits ?dist ! i ! a))]) [0..<B])))" .
    from r2[OF t q]
    show "map_option (tdim \<circ> val) (fst (discrete_sac_compute_target I b s)) = Some 2"
      by (simp add: untracked_def)
  qed
qed

theorem discrete_sac_target_value_and_rank_witness:
  "fst (discrete_sac_compute_target example_discrete_sac example_batch example_store) =
     Some (untracked (T2 [[1 / 2 * (5 - ln (1 / 2)) + 1 / 2 * (1 - ln (1 / 2))]]))
   \<and> fst (discrete_sac_compute_target example_quantile_discrete_sac example_batch example_store) =
     Some (untracked (T2 [[1 / 2 * (5 - ln (1 / 2)) + 1 / 2 * (1 - ln (1 / 2)),
                           1 / 2 * (6 - ln (1 / 2)) + 1 / 2 * (2 - ln (1 / 2))]]))"
  using discrete_sac_target_value_and_rank [of example_discrete_sac example_store example_batch "Suc 0" "Suc (Suc 0)" 0]
    discrete_sac_target_value_and_rank [of example_quantile_discrete_sac example_store example_batch "Suc 0" "Suc (Suc 0)" 0]
  by (simp add: example_quantile_discrete_sac_def example_quantile_forwarder_def
      example_discrete_sac_def example_policy_def example_store_def example_batch_def
      example_forwarder_def has_shape2_def has_shape3_def Let_def)

section \<open>The temperature update of discrete SAC\<close>

lemma has_shape2_log_softmax: "has_shape2 m B A \<Longrightarrow> has_shape2 (log_softmax m) B A"
  by (simp add: has_shape2_def log_softmax_def list_all_iff)

lemma expected_log_prob:
  assumes p: "has_shape2 p B A" and l: "has_shape2 l B A"
  shows "Option.bind (bop2 (*) p l) k =
         k (map (\<lambda>i. map (\<lambda>a. p ! i ! a * l ! i ! a) [0..<A]) [0..<B])"
  by (simp add: bop2_same[OF p l])

lemma row_sums_table:
  "map (\<lambda>r. [sum_list r]) (map (\<lambda>i. map (g i) [0..<A]) [0..<B]) =
   map (\<lambda>i. [(\<Sum>a<A. g i a)]) [0..<B]"
  by (simp add: interv_sum_list_conv_sum_set_nat atLeast0LessThan comp_def)

lemma column_plus:
  "map (map (\<lambda>x. x + c)) (map (\<lambda>i. [g i]) [0..<B]) = map (\<lambda>i. [g i + c]) [0..<B]"
  by simp

lemma discrete_sac_temp_block_value:
  assumes asz: "0 < action_size I"
    and P: "has_shape2 (probs (p_forward (policy (modules I))
                 (params s (p_addr (policy (modules I)))) (observations b))) B A"
    and L: "has_shape2 (logits (p_forward (policy (modules I))
                 (params s (p_addr (policy (modules I)))) (observations b))) B A"
  shows "discrete_sac_temp_block I b s =
     (Some (untracked
        \<lparr>expct_log_probs =
           map (\<lambda>i. [(\<Sum>a<A. probs (p_forward (policy (modules I))
                         (params s (p_addr (policy (modules I)))) (observations b)) ! i ! a
                    * log_softmax (logits (p_forward (policy (modules I))
                         (params s (p_addr (policy (modules I)))) (observations b))) ! i ! a)])
               [0..<B],
         entropy_target = 0.98 * (- ln (1 / real (action_size I))),
         targ_temp =
           map (\<lambda>i. [(\<Sum>a<A. probs (p_forward (policy (modules I))
                         (params s (p_addr (policy (modules I)))) (observations b)) ! i ! a
                    * log_softmax (logits (p_forward (policy (modules I))
                         (params s (p_addr (policy (modules I)))) (observations b))) ! i ! a)
                    + 0.98 * (- ln (1 / real (action_size I)))])
               [0..<B]\<rparr>), s)"
  using asz
  by (simp add: discrete_sac_temp_block_def no_grad_def call_policy_def tracked_by_def Let_def
      expected_log_prob[OF P has_shape2_log_softmax[OF L]] row_sums_table untracked_def
      del: map_map)
    simp

lemma discrete_sac_update_temp_from_block:
  assumes blk: "discrete_sac_temp_block I b (zero_grad (temp_optim (modules I)) s) =
                  (Some loc, zero_grad (temp_optim (modules I)) s)"
    and sh: "has_shape2 (targ_temp (val loc)) B 1"
    and B: "0 < B"
    and lt: "params s (log_temp (modules I)) = [lt]"
    and ge: "grad_enabled s"
  shows "(case params (snd (discrete_sac_update_temp I b s)) (log_temp (modules I)) of
            [] \<Rightarrow> fst (discrete_sac_update_temp I b s) = None
          | lt' # rest \<Rightarrow>
              fst (discrete_sac_update_temp I b s) =
                Some [(''temp_loss'',
                       - ((\<Sum>i<B. exp lt * (targ_temp (val loc) ! i ! 0)) / real B)),
                      (''temp'', exp lt')])"
proof -
  let ?s1 = "zero_grad (temp_optim (modules I)) s"
  let ?P = "map (\<lambda>i. [exp lt * (targ_temp (val loc) ! i ! 0)]) [0..<B]"
  have p1: "params ?s1 = params s" by (simp add: zero_grad_def)
  have g1: "grad_enabled ?s1" using ge by (simp add: zero_grad_def)
  have e1: "bop2 (*) [[exp lt]] (targ_temp (val loc)) = Some ?P"
    by (rule bop2_scalar_column[OF sh])
  have e2: "tmean (T2 ?P) = Some ((\<Sum>i<B. exp lt * (targ_temp (val loc) ! i ! 0)) / real B)"
    by (rule tmean_column[OF B])
  show ?thesis
    using g1
    by (auto simp add: discrete_sac_update_temp_def train_api_def blk
        call_parameter_def lt p1 e1 e2 texp_def Let_def tracked_by_def backward_def
        step_def split: list.splits)
qed

lemma ln_half: "ln (1 / 2 :: real) = - ln 2"
  by (simp add: ln_div)

lemma ln_quarter: "ln (1 / 4 :: real) = - 2 * ln 2"
proof -
  have "ln (4 :: real) = ln (2 ^ 2)" by simp
  also have "\<dots> = 2 * ln 2" by (subst ln_realpow) simp_all
  finally show ?thesis by (simp add: ln_div)
qed

lemma ln_three_quarters: "ln (3 / 4 :: real) = ln 3 - 2 * ln 2"
proof -
  have "ln (4 :: real) = ln (2 ^ 2)" by simp
  also have "\<dots> = 2 * ln 2" by (subst ln_realpow) simp_all
  finally show ?thesis by (simp add: ln_div)
qed

lemma ln_2_3_bound: "34 * ln 2 < 25 * ln (3 :: real)"
proof -
  have a: "ln ((2 :: real) ^ 34) = 34 * ln 2" by (subst ln_realpow) simp_all
  have b: "ln ((3 :: real) ^ 25) = 25 * ln 3" by (subst ln_realpow) simp_all
  have "ln ((2 :: real) ^ 34) < ln (3 ^ 25)"
    by (subst ln_less_cancel_iff) simp_all
  then show ?thesis unfolding a b .
qed

lemma weighted_bound:
  "34 * x < 25 * y \<Longrightarrow> 0 < (- 2 * x) / 4 + 3 * (y - 2 * x) / 4 - 49 * (- x) / 50"
  for x y :: real
  by (simp add: field_simps)

lemma example_targets_signs:
  "ln (1 / 2 :: real) / 50 < 0
   \<and> 0 < ln (1 / 4 :: real) / 4 + 3 * ln (3 / 4) / 4 - 49 * ln (1 / 2) / 50"
proof -
  have p: "0 < ln (2 :: real)" by simp
  have a: "- ln (2 :: real) / 50 < 0" using p by simp
  have b: "0 < (- 2 * ln (2 :: real)) / 4 + 3 * (ln 3 - 2 * ln 2) / 4 - 49 * (- ln 2) / 50"
    by (rule weighted_bound[OF ln_2_3_bound])
  show ?thesis
    unfolding ln_half ln_quarter ln_three_quarters using a b by blast
qed

text \<open>
  C4, as stated, fails. The claim: for two mini-batches with different observations but
  the same temperature parameter and action size, the temperature target that
  \<^verbatim>\<open>DiscreteSACImpl.update_temp\<close> uses is the same fixed value
  0.98 * (- log (1 / action_size)). On the example, with one store and action size 2,
  the tensor \<^verbatim>\<open>targ_temp\<close> that \<^verbatim>\<open>update_temp\<close> multiplies with the temperature is
  \<open>ln (1/2) / 50\<close> at observation 0, where the policy is uniform, and another value at
  observation 1; neither is 0.98 * (- ln (1/2)).
\<close>

theorem temperature_target_varies_with_batch:
  "map_option (targ_temp \<circ> val)
     (fst (discrete_sac_temp_block example_discrete_sac example_batch example_store))
   = Some [[ln (1 / 2) / 50]]
   \<and> map_option (targ_temp \<circ> val)
     (fst (discrete_sac_temp_block example_discrete_sac example_batch3 example_store))
   = Some [[ln (1 / 4) / 4 + 3 * ln (3 / 4) / 4 - 49 * ln (1 / 2) / 50]]
   \<and> map_option (targ_temp \<circ> val)
     (fst (discrete_sac_temp_block example_discrete_sac example_batch example_store))
   \<noteq> map_option (targ_temp \<circ> val)
     (fst (discrete_sac_temp_block example_discrete_sac example_batch3 example_store))
   \<and> map_option (targ_temp \<circ> val)
     (fst (discrete_sac_temp_block example_discrete_sac example_batch example_store))
   \<noteq> Some [[0.98 * (- ln (1 / real (action_size example_discrete_sac)))]]"
proof -
  have a: "map_option (targ_temp \<circ> val)
     (fst (discrete_sac_temp_block example_discrete_sac example_batch example_store))
   = Some [[ln (1 / 2) / 50]]"
    by (simp add: discrete_sac_temp_block_def no_grad_def call_policy_def tracked_by_def
        Let_def log_softmax_def bop2_def bop1_def bop0_def bcast_def
        example_discrete_sac_def example_policy_def example_store_def example_batch_def)
  have b: "map_option (targ_temp \<circ> val)
     (fst (discrete_sac_temp_block example_discrete_sac example_batch3 example_store))
   = Some [[ln (1 / 4) / 4 + 3 * ln (3 / 4) / 4 - 49 * ln (1 / 2) / 50]]"
    by (simp add: discrete_sac_temp_block_def no_grad_def call_policy_def tracked_by_def
        Let_def log_softmax_def bop2_def bop1_def bop0_def bcast_def
        example_discrete_sac_def example_policy_def example_store_def example_batch3_def)
  have c: "ln (1 / 2 :: real) / 50 \<noteq> ln (1 / 4) / 4 + 3 * ln (3 / 4) / 4 - 49 * ln (1 / 2) / 50"
    using example_targets_signs by linarith
  have "0 < ln (2 :: real)" by simp
  then have d: "ln (1 / 2 :: real) / 50 \<noteq> 0.98 * (- ln (1 / real (action_size example_discrete_sac)))"
    by (simp add: example_discrete_sac_def ln_half)
  show ?thesis unfolding a b using c d by simp
qed

text \<open>With the same temperature, the reported loss (whose derivative in the
  temperature parameter is the loss itself) is positive on one batch and negative on
  the other.\<close>

lemma temp_loss_sign_depends_on_batch:
  "fst (discrete_sac_update_temp example_discrete_sac example_batch example_store)
     = Some [(''temp_loss'', - (ln (1 / 2) / 50)), (''temp'', exp (- 1 / 10))]
   \<and> fst (discrete_sac_update_temp example_discrete_sac example_batch3 example_store)
     = Some [(''temp_loss'', - (ln (1 / 4) / 4 + 3 * ln (3 / 4) / 4 - 49 * ln (1 / 2) / 50)),
             (''temp'', exp (- 1 / 10))]
   \<and> 0 < - (ln (1 / 2 :: real) / 50)
   \<and> - (ln (1 / 4 :: real) / 4 + 3 * ln (3 / 4) / 4 - 49 * ln (1 / 2) / 50) < 0"
proof -
  have a: "fst (discrete_sac_update_temp example_discrete_sac example_batch example_store)
     = Some [(''temp_loss'', - (ln (1 / 2) / 50)), (''temp'', exp (- 1 / 10))]"
    by (simp add: discrete_sac_update_temp_def discrete_sac_temp_block_def train_api_def
        no_grad_def call_policy_def call_parameter_def tracked_by_def Let_def
        zero_grad_def backward_def step_def accumulate_def
        log_softmax_def texp_def tmean_def bop2_def bop1_def bop0_def bcast_def
        example_discrete_sac_def example_policy_def example_store_def example_batch_def
        example_optimizer_def example_autograd_def)
  have b: "fst (discrete_sac_update_temp example_discrete_sac example_batch3 example_store)
     = Some [(''temp_loss'', - (ln (1 / 4) / 4 + 3 * ln (3 / 4) / 4 - 49 * ln (1 / 2) / 50)),
             (''temp'', exp (- 1 / 10))]"
    by (simp add: discrete_sac_update_temp_def discrete_sac_temp_block_def train_api_def
        no_grad_def call_policy_def call_parameter_def tracked_by_def Let_def
        zero_grad_def backward_def step_def accumulate_def
        log_softmax_def texp_def tmean_def bop2_def bop1_def bop0_def bcast_def
        example_discrete_sac_def example_policy_def example_store_def example_batch3_def
        example_optimizer_def example_autograd_def)
  show ?thesis using a b example_targets_signs by simp
qed

text \<open>
  C4, amended. For every mini-batch at which the policy's probabilities and logits have
  the shape (B, A), with B > 0, an action size above 0, gradient tracking on and the
  temperature parameter holding \<open>lt\<close>: the entropy target of
  \<^verbatim>\<open>DiscreteSACImpl.update_temp\<close> is the fixed value 0.98 * (- ln (1 / action_size)),
  whatever the batch holds; the temperature target \<^verbatim>\<open>targ_temp\<close> is, per sample, the
  policy's expected log-probability (the sum over the actions of
  \<open>prob * log_softmax logits\<close>) at the batch's observations plus that fixed value; and the
  reported \<^verbatim>\<open>temp_loss\<close> is minus the mean of \<open>exp lt * targ_temp\<close>.
\<close>

theorem discrete_sac_temperature_target:
  assumes asz: "0 < action_size I"
    and P: "has_shape2 (probs (p_forward (policy (modules I))
                 (params s (p_addr (policy (modules I)))) (observations b))) B A"
    and L: "has_shape2 (logits (p_forward (policy (modules I))
                 (params s (p_addr (policy (modules I)))) (observations b))) B A"
    and B: "0 < B"
    and lt: "params s (log_temp (modules I)) = [lt]"
    and ge: "grad_enabled s"
  shows "let dist = p_forward (policy (modules I)) (params s (p_addr (policy (modules I))))
                      (observations b);
             et = 0.98 * (- ln (1 / real (action_size I)));
             E = (\<lambda>i. \<Sum>a<A. probs dist ! i ! a * log_softmax (logits dist) ! i ! a);
             r = discrete_sac_update_temp I b s
         in map_option val (fst (discrete_sac_temp_block I b s)) =
              Some \<lparr>expct_log_probs = map (\<lambda>i. [E i]) [0..<B], entropy_target = et,
                    targ_temp = map (\<lambda>i. [E i + et]) [0..<B]\<rparr>
          \<and> (case params (snd r) (log_temp (modules I)) of
                [] \<Rightarrow> fst r = None
              | lt' # rest \<Rightarrow>
                  fst r = Some [(''temp_loss'', - ((\<Sum>i<B. exp lt * (E i + et)) / real B)),
                                (''temp'', exp lt')])"
proof -
  let ?dist = "p_forward (policy (modules I)) (params s (p_addr (policy (modules I))))
                 (observations b)"
  let ?et = "0.98 * (- ln (1 / real (action_size I)))"
  let ?E = "\<lambda>i. \<Sum>a<A. probs ?dist ! i ! a * log_softmax (logits ?dist) ! i ! a"
  let ?s1 = "zero_grad (temp_optim (modules I)) s"
  let ?tt = "map (\<lambda>i. [?E i + ?et]) [0..<B]"
  let ?loc = "untracked \<lparr>expct_log_probs = map (\<lambda>i. [?E i]) [0..<B], entropy_target = ?et,
                         targ_temp = ?tt\<rparr>"
  have p1: "params ?s1 = params s" by (simp add: zero_grad_def)
  have blk: "discrete_sac_temp_block I b s = (Some ?loc, s)"
    by (rule discrete_sac_temp_block_value[OF asz P L])
  have blk1: "discrete_sac_temp_block I b ?s1 = (Some ?loc, ?s1)"
    using discrete_sac_temp_block_value[OF asz, of ?s1 b B A] P L by (simp only: p1)
  have tt: "targ_temp (val ?loc) = ?tt" by (simp add: untracked_def)
  have sh: "has_shape2 (targ_temp (val ?loc)) B 1"
    unfolding tt by (rule has_shape2_column)
  have sm: "(\<Sum>i<B. exp lt * (targ_temp (val ?loc) ! i ! 0)) = (\<Sum>i<B. exp lt * (?E i + ?et))"
    unfolding tt by (rule sum.cong) simp_all
  note upd = discrete_sac_update_temp_from_block[OF blk1 sh B lt ge, unfolded sm]
  have b: "map_option val (fst (discrete_sac_temp_block I b s)) =
              Some \<lparr>expct_log_probs = map (\<lambda>i. [?E i]) [0..<B], entropy_target = ?et,
                    targ_temp = ?tt\<rparr>"
    unfolding blk by (simp add: untracked_def)
  show ?thesis
    unfolding Let_def using upd b by blast
qed

theorem discrete_sac_temperature_target_witness:
  "map_option (entropy_target \<circ> val)
     (fst (discrete_sac_temp_block example_discrete_sac example_batch example_store))
     = Some (0.98 * (- ln (1 / 2)))
   \<and> map_option (entropy_target \<circ> val)
     (fst (discrete_sac_temp_block example_discrete_sac example_batch3 example_store))
     = Some (0.98 * (- ln (1 / 2)))"
proof -
  have h: "0 < action_size example_discrete_sac"
    "params example_store (log_temp (modules example_discrete_sac)) = [0]"
    "grad_enabled example_store" "0 < Suc 0"
    by (simp_all add: example_discrete_sac_def example_store_def)
  have s1: "has_shape2 (probs (p_forward (policy (modules example_discrete_sac))
                 (params example_store (p_addr (policy (modules example_discrete_sac))))
                 (observations example_batch))) (Suc 0) (Suc (Suc 0))"
    "has_shape2 (logits (p_forward (policy (modules example_discrete_sac))
                 (params example_store (p_addr (policy (modules example_discrete_sac))))
                 (observations example_batch))) (Suc 0) (Suc (Suc 0))"
    by (simp_all add: example_discrete_sac_def example_policy_def example_batch_def
        has_shape2_def)
  have s3: "has_shape2 (probs (p_forward (policy (modules example_discrete_sac))
                 (params example_store (p_addr (policy (modules example_discrete_sac))))
                 (observations example_batch3))) (Suc 0) (Suc (Suc 0))"
    "has_shape2 (logits (p_forward (policy (modules example_discrete_sac))
                 (params example_store (p_addr (policy (modules example_discrete_sac))))
                 (observations example_batch3))) (Suc 0) (Suc (Suc 0))"
    by (simp_all add: example_discrete_sac_def example_policy_def example_batch3_def
        has_shape2_def)
  note r1 = discrete_sac_temperature_target [OF h(1) s1 h(4) h(2) h(3), unfolded Let_def, THEN conjunct1]
  note r3 = discrete_sac_temperature_target [OF h(1) s3 h(4) h(2) h(3), unfolded Let_def, THEN conjunct1]
  have c: "\<And>x. map_option (entropy_target \<circ> val) x = map_option entropy_target (map_option val x)"
    by (simp add: option.map_comp)
  show ?thesis
    unfolding c r1 r3 by (simp add: example_discrete_sac_def)
qed

end
